theory Spec2Isabelle
  imports Main "HOL-Library.AList"
begin

text \<open>
  A model of the trading client: the class \<open>DerivClient\<close> with the module \<open>state\<close> it
  works on, and the calls the HTTP layer makes into it. Asynchronous functions are
  cut at their \<open>await\<close>s: an event of the event loop runs a callback up to the point where
  it returns or suspends, and then the microtasks it has queued. State is passed
  explicitly, a thrown error is a value, and the random numbers, the clock and the
  conversions of the runtime are parameters.
\<close>

section \<open>JSON values as the client inspects them\<close>

text \<open>
  The client reads members of parsed JSON messages and tests them for truthiness, for
  strict equality and for absence. A member is modelled as a scalar: absent
  (\<open>undefined\<close>), \<open>null\<close>, a boolean, a number or a string. Numbers are integers here
  (identifiers and flags); JSON has no NaN.
\<close>

datatype jv = Absent | JNull | JBool bool | JNum int | JStr string

fun truthy :: "jv \<Rightarrow> bool" where
  "truthy Absent = False"
| "truthy JNull = False"
| "truthy (JBool b) = b"
| "truthy (JNum n) = (n \<noteq> 0)"
| "truthy (JStr s) = (s \<noteq> [])"

text \<open>The operator \<open>a || b\<close>.\<close>

definition js_or :: "jv \<Rightarrow> jv \<Rightarrow> jv" where
  "js_or a b = (if truthy a then a else b)"

section \<open>Messages, orders and results\<close>

record tick =
  symbol :: jv
  quote :: jv
  epoch :: jv

text \<open>The member \<open>proposal_open_contract\<close> of an inbound message.\<close>

record poc =
  contract_id :: jv
  status :: jv
  is_sold :: jv
  profit :: jv
  payout :: jv
  buy_price :: jv
  sell_price :: jv
  exit_tick :: jv
  exit_tick_time :: jv
  transaction_ids :: jv

text \<open>
  A parsed inbound message (an object). \<open>error\<close> is the member \<open>error\<close> when it is
  present, as its \<open>code\<close> and \<open>message\<close>; \<open>buy\<close> is \<open>msg.buy.contract_id\<close> and
  \<open>proposal\<close> is \<open>msg.proposal.id\<close> when the enclosing member is present.
\<close>

record msg =
  req_id :: jv
  msg_type :: jv
  error :: "(string \<times> string) option"
  m_tick :: "tick option"
  buy :: "jv option"
  proposal :: "jv option"
  proposal_open_contract :: "poc option"

text \<open>The object the HTTP layer passes to \<open>placeTrade\<close>.\<close>

record order =
  o_symbol :: jv
  o_contract_type :: jv
  o_duration :: jv
  o_duration_unit :: jv
  o_stake :: jv
  o_currency :: jv
  o_basis :: jv
  o_barrier :: jv
  o_prediction :: jv

text \<open>\<open>{ requestId, ...tradePayload }\<close>\<close>

record payload = order +
  requestId :: nat

text \<open>\<open>state.trade.active\<close>: \<open>{ requestId, contractId, startedAt, payload }\<close>\<close>

record active_trade =
  a_requestId :: nat
  contractId :: jv
  startedAt :: nat
  a_payload :: payload

text \<open>
  \<open>state.trade.lastResult\<close>. The three object literals of the source (settlement,
  timeout, error) have different keys; a key that a literal does not have is \<open>Absent\<close>.
\<close>

record result =
  r_contract_id :: jv
  r_status :: jv
  r_is_sold :: jv
  r_profit :: jv
  r_payout :: jv
  r_buy_price :: jv
  r_sell_price :: jv
  r_exit_tick :: jv
  r_exit_tick_time :: jv
  r_transaction_ids :: jv
  r_error :: jv
  endedAt :: nat

text \<open>The proposal request built by \<open>_startTrade\<close>.\<close>

record proposalReq =
  q_amount :: jv
  q_basis :: jv
  q_contract_type :: jv
  q_currency :: jv
  q_duration :: jv
  q_duration_unit :: jv
  q_symbol :: jv
  q_barrier :: jv
  q_prediction :: jv

text \<open>What is written to the socket, with the \<open>req_id\<close> attached by \<open>send\<close>.\<close>

datatype wire =
    W_ping
  | W_authorize string nat
  | W_ticks jv nat
  | W_proposal proposalReq nat
  | W_buy jv jv nat
  | W_poc jv nat

text \<open>The value \<open>placeTrade\<close> returns.\<close>

record reply =
  accepted :: bool
  queued :: bool
  request_id :: nat
  queue_position :: "nat option"

text \<open>
  What leaves the client: a frame on the socket, the settled promise of a
  \<open>placeTrade\<close> call (identified by its request id) or of a \<open>subscribeTicks\<close> call made
  by the HTTP layer, and the warning \<open>Reconnecting in ...ms\<close> with its delay.
\<close>

datatype out =
    WsSend wire
  | PlaceReturn reply
  | PlaceThrow nat string
  | SubscribeReturn jv
  | SubscribeThrow jv string
  | WarnReconnecting nat

section \<open>Suspended callers\<close>

text \<open>
  Every \<open>send\<close> of the source is awaited at once by its caller, which resumes when the
  promise settles. \<open>caller\<close> says who receives a failure of the awaiting function:
  \<open>placeTrade\<close> (which rethrows to the HTTP layer), the \<open>.catch\<close> of \<open>_finishTrade\<close>,
  the \<open>try/catch\<close> of the open handler, or the HTTP layer's call of \<open>subscribeTicks\<close>.
  \<open>cont\<close> is the point at which the awaiting function is suspended, with the local
  variables it still needs.
\<close>

datatype caller = FromPlace nat | FromFinish | FromOpen | FromHttp jv

datatype cont =
    AwaitAuthorize
  | AwaitTicks caller
  | AwaitProposal caller payload
  | AwaitBuy caller payload
  | AwaitSubscribe caller payload jv

datatype settle = Resolved msg | Rejected string

text \<open>
  A promise reaction waiting in the microtask queue: resume a suspended function, or
  hand an error to the caller's handler.
\<close>

datatype job = Resume cont settle | Fail caller string

text \<open>\<open>setTimeout\<close> callbacks that are armed, with the variables they close over.\<close>

datatype timer =
    T_request nat nat string
  | T_trade jv
  | T_reconnect nat

datatype readyState = CONNECTING | OPEN | CLOSING | CLOSED

text \<open>An entry of \<open>this.pending\<close>; \<open>p_promise\<close> stands for \<open>{resolve, reject}\<close>.\<close>

record pentry =
  p_promise :: nat
  p_ts :: nat
  p_type :: string

section \<open>Configuration and state\<close>

text \<open>
  The constructor options the engine reads, and the runtime functions it calls:
  \<open>rnd n\<close> is the value of the n-th \<open>Math.random() * 1e9\<close> rounded down,
  \<open>js_Number\<close> and \<open>js_String\<close> are the conversions of the same name.
\<close>

record cfg =
  token :: string
  reconnectBaseDelayMs :: nat
  reconnectMaxDelayMs :: nat
  maxTicksBuffer :: nat
  logTicks :: bool
  rnd :: "nat \<Rightarrow> nat"
  js_Number :: "jv \<Rightarrow> jv"
  js_String :: "jv \<Rightarrow> jv"

text \<open>
  The module \<open>state\<close> and the fields of the client, followed by what the runtime holds
  for it: the unsettled promises with their suspended awaiters, the next promise
  handle, the number of random draws made, the armed timers, everything emitted so far,
  and whether an exception escaped an event handler.
\<close>

record st =
  connected :: bool
  authorized :: bool
  lastError :: "string option"
  defaults_symbol :: jv
  defaults_currency :: jv
  defaults_basis :: jv
  ticks_symbol :: jv
  ticks_last :: "tick option"
  ticks_buffer :: "tick option list"
  inProgress :: bool
  queue :: "payload list"
  lastResult :: "result option"
  active :: "active_trade option"
  ws :: "readyState option"
  pingTimer :: bool
  reconnectAttempt :: nat
  pending :: "(nat \<times> pentry) list"
  promises :: "(nat \<times> cont) list"
  fresh :: nat
  draws :: nat
  timers :: "timer list"
  outbox :: "out list"
  crashed :: bool

text \<open>The initial values of \<open>state.js\<close> and of the constructor.\<close>

definition init :: "jv \<Rightarrow> jv \<Rightarrow> st" where
  "init dsym dcur =
     \<lparr>connected = False, authorized = False, lastError = None,
      defaults_symbol = dsym, defaults_currency = dcur, defaults_basis = JStr ''stake'',
      ticks_symbol = JNull, ticks_last = None, ticks_buffer = [],
      inProgress = False, queue = [], lastResult = None, active = None,
      ws = None, pingTimer = False, reconnectAttempt = 0,
      pending = [], promises = [], fresh = 0, draws = 0, timers = [], outbox = [],
      crashed = False\<rparr>"

section \<open>Request correlation\<close>

definition nextReqId :: "cfg \<Rightarrow> st \<Rightarrow> nat \<times> st" where
  "nextReqId c s = (rnd c (draws s) mod 1000000000, s\<lparr>draws := Suc (draws s)\<rparr>)"

text \<open>
  \<open>send\<close>: throws when the socket is not open; otherwise draws an id, stores the
  pending entry under it (\<open>Map.set\<close> replaces an entry with the same key), arms the
  15 s timer and writes the frame. The awaiting caller \<open>k\<close> is recorded with the new
  promise.
\<close>

definition send :: "cfg \<Rightarrow> nat \<Rightarrow> (nat \<Rightarrow> wire) \<Rightarrow> string \<Rightarrow> cont \<Rightarrow> st \<Rightarrow> string + st" where
  "send c now body ty k s =
     (if ws s \<noteq> Some OPEN then Inl ''WebSocket not open''
      else
        let (rid, s1) = nextReqId c s;
            h = fresh s1
        in Inr (s1\<lparr>fresh := Suc h,
                    pending := AList.update rid \<lparr>p_promise = h, p_ts = now, p_type = ty\<rparr> (pending s1),
                    promises := promises s1 @ [(h, k)],
                    timers := timers s1 @ [T_request rid h ty],
                    outbox := outbox s1 @ [WsSend (body rid)]\<rparr>))"

text \<open>
  Settling a promise: its awaiter, if it has not been settled before, is queued;
  settling a settled promise does nothing.
\<close>

definition settle_promise :: "nat \<Rightarrow> settle \<Rightarrow> st \<Rightarrow> st \<times> job list" where
  "settle_promise h r s =
     (case map_of (promises s) h of
        None \<Rightarrow> (s, [])
      | Some k \<Rightarrow> (s\<lparr>promises := AList.delete h (promises s)\<rparr>, [Resume k r]))"

text \<open>Lines 79-84 of the message handler: resolve the pending promise named by \<open>req_id\<close>.\<close>

definition render_error :: "string \<times> string \<Rightarrow> string" where
  "render_error e = fst e @ '': '' @ snd e"

definition resolve_pending :: "msg \<Rightarrow> st \<Rightarrow> st \<times> job list" where
  "resolve_pending m s =
     (case req_id m of
        JNum n \<Rightarrow>
          (if n > 0 then
             (case map_of (pending s) (nat n) of
                None \<Rightarrow> (s, [])
              | Some p \<Rightarrow>
                  settle_promise (p_promise p)
                    (case error m of Some e \<Rightarrow> Rejected (render_error e) | None \<Rightarrow> Resolved m)
                    (s\<lparr>pending := AList.delete (nat n) (pending s)\<rparr>))
           else (s, []))
      | _ \<Rightarrow> (s, []))"

text \<open>The safety timeout armed by \<open>send\<close>, with its \<open>req_id\<close>, \<open>reject\<close> and \<open>type\<close>.\<close>

definition expire :: "nat \<Rightarrow> nat \<Rightarrow> string \<Rightarrow> st \<Rightarrow> st \<times> job list" where
  "expire rid h ty s =
     (case map_of (pending s) rid of
        None \<Rightarrow> (s, [])
      | Some p \<Rightarrow>
          settle_promise h (Rejected (''Timeout waiting for '' @ ty))
            (s\<lparr>pending := AList.delete rid (pending s)\<rparr>))"

section \<open>Trade engine\<close>

text \<open>The object stored as \<open>lastResult\<close> by the \<open>.catch\<close> of \<open>_finishTrade\<close>.\<close>

definition error_result :: "nat \<Rightarrow> string \<Rightarrow> result" where
  "error_result now e =
     \<lparr>r_contract_id = JNull, r_status = JStr ''error'', r_is_sold = Absent,
      r_profit = Absent, r_payout = Absent, r_buy_price = Absent, r_sell_price = Absent,
      r_exit_tick = Absent, r_exit_tick_time = Absent, r_transaction_ids = Absent,
      r_error = JStr e, endedAt = now\<rparr>"

text \<open>The object stored by the timeout callback of \<open>_startTrade\<close>.\<close>

definition timeout_result :: "nat \<Rightarrow> jv \<Rightarrow> result" where
  "timeout_result now cid =
     \<lparr>r_contract_id = cid, r_status = JStr ''timeout'', r_is_sold = JBool False,
      r_profit = JNull, r_payout = JNull, r_buy_price = JNull, r_sell_price = JNull,
      r_exit_tick = Absent, r_exit_tick_time = Absent, r_transaction_ids = Absent,
      r_error = Absent, endedAt = now\<rparr>"

text \<open>The object stored by the settlement handler.\<close>

definition settled_result :: "nat \<Rightarrow> poc \<Rightarrow> result" where
  "settled_result now p =
     \<lparr>r_contract_id = contract_id p, r_status = status p, r_is_sold = is_sold p,
      r_profit = profit p, r_payout = payout p, r_buy_price = buy_price p,
      r_sell_price = sell_price p, r_exit_tick = exit_tick p,
      r_exit_tick_time = exit_tick_time p,
      r_transaction_ids = js_or (transaction_ids p) JNull,
      r_error = Absent, endedAt = now\<rparr>"

text \<open>
  Where an error thrown by an awaiting function ends up. From \<open>placeTrade\<close> it reaches
  the HTTP layer and nothing else happens; the \<open>.catch\<close> of \<open>_finishTrade\<close> records it
  and unlocks; the open handler and the HTTP subscription record or report it.
\<close>

definition fail_to :: "nat \<Rightarrow> caller \<Rightarrow> string \<Rightarrow> st \<Rightarrow> st" where
  "fail_to now clr e s =
     (case clr of
        FromPlace rid \<Rightarrow> s\<lparr>outbox := outbox s @ [PlaceThrow rid e]\<rparr>
      | FromFinish \<Rightarrow> s\<lparr>lastResult := Some (error_result now e), active := None, inProgress := False\<rparr>
      | FromOpen \<Rightarrow> s\<lparr>lastError := Some e\<rparr>
      | FromHttp sy \<Rightarrow> s\<lparr>outbox := outbox s @ [SubscribeThrow sy e]\<rparr>)"

definition build_proposal :: "cfg \<Rightarrow> st \<Rightarrow> payload \<Rightarrow> proposalReq" where
  "build_proposal c s p =
     \<lparr>q_amount = js_Number c (o_stake p),
      q_basis = js_or (o_basis p) (js_or (defaults_basis s) (JStr ''stake'')),
      q_contract_type = o_contract_type p,
      q_currency = js_or (o_currency p) (defaults_currency s),
      q_duration = js_Number c (o_duration p),
      q_duration_unit = js_or (o_duration_unit p) (JStr ''t''),
      q_symbol = js_or (o_symbol p) (defaults_symbol s),
      q_barrier = (if o_barrier p \<noteq> Absent \<and> o_barrier p \<noteq> JNull
                   then js_String c (o_barrier p) else Absent),
      q_prediction = (if o_prediction p \<noteq> Absent \<and> o_prediction p \<noteq> JNull
                      then js_Number c (o_prediction p) else Absent)\<rparr>"

text \<open>
  \<open>_startTrade\<close> up to its first \<open>await\<close>. The second component is the rejection of
  the returned promise, if the function threw, addressed to its caller.
\<close>

definition startTrade :: "cfg \<Rightarrow> nat \<Rightarrow> caller \<Rightarrow> payload \<Rightarrow> st \<Rightarrow> st \<times> job list" where
  "startTrade c now clr p s =
     (if \<not> authorized s then (s, [Fail clr ''Not authorized yet''])
      else
        let s1 = s\<lparr>inProgress := True,
                   active := Some \<lparr>a_requestId = requestId p, contractId = JNull,
                                   startedAt = now, a_payload = p\<rparr>\<rparr>
        in case send c now (W_proposal (build_proposal c s1 p)) ''proposal'' (AwaitProposal clr p) s1 of
             Inl e \<Rightarrow> (s1, [Fail clr e])
           | Inr s2 \<Rightarrow> (s2, []))"

definition finishTrade :: "cfg \<Rightarrow> nat \<Rightarrow> st \<Rightarrow> st \<times> job list" where
  "finishTrade c now s =
     (let s1 = s\<lparr>active := None, inProgress := False\<rparr>
      in case queue s1 of
           [] \<Rightarrow> (s1, [])
         | next # rest \<Rightarrow> startTrade c now FromFinish next (s1\<lparr>queue := rest\<rparr>))"

definition placeTrade :: "cfg \<Rightarrow> nat \<Rightarrow> order \<Rightarrow> st \<Rightarrow> st \<times> job list" where
  "placeTrade c now tradePayload s =
     (let (rid, s1) = nextReqId c s;
          p = order.extend tradePayload (payload.fields rid)
      in if inProgress s1 then
           let s2 = s1\<lparr>queue := queue s1 @ [p]\<rparr>
           in (s2\<lparr>outbox := outbox s2 @
                 [PlaceReturn \<lparr>accepted = True, queued = True, request_id = rid,
                               queue_position = Some (length (queue s2))\<rparr>]\<rparr>, [])
         else startTrade c now (FromPlace rid) p s1)"

definition subscribeTicks :: "cfg \<Rightarrow> nat \<Rightarrow> caller \<Rightarrow> jv \<Rightarrow> st \<Rightarrow> st \<times> job list" where
  "subscribeTicks c now clr sy s =
     (let s1 = s\<lparr>ticks_symbol := sy, ticks_buffer := []\<rparr>
      in case send c now (W_ticks sy) ''ticks_subscribe'' (AwaitTicks clr) s1 of
           Inl e \<Rightarrow> (s1, [Fail clr e])
         | Inr s2 \<Rightarrow> (s2, []))"

text \<open>
  The code that runs when an awaited promise settles: the rest of the open handler, of
  \<open>subscribeTicks\<close> or of \<open>_startTrade\<close>, up to the next \<open>await\<close> or to the end. A
  rejection rethrows at the \<open>await\<close>.
\<close>

fun resume :: "cfg \<Rightarrow> nat \<Rightarrow> cont \<Rightarrow> settle \<Rightarrow> st \<Rightarrow> st \<times> job list" where
  "resume c now AwaitAuthorize (Rejected e) s = (s\<lparr>lastError := Some e\<rparr>, [])"
| "resume c now AwaitAuthorize (Resolved m) s =
     (let s1 = s\<lparr>authorized := True\<rparr>
      in subscribeTicks c now FromOpen (defaults_symbol s1) s1)"
| "resume c now (AwaitTicks clr) (Rejected e) s = (s, [Fail clr e])"
| "resume c now (AwaitTicks clr) (Resolved m) s =
     (case clr of
        FromHttp sy \<Rightarrow> (s\<lparr>outbox := outbox s @ [SubscribeReturn sy]\<rparr>, [])
      | _ \<Rightarrow> (s, []))"
| "resume c now (AwaitProposal clr p) (Rejected e) s = (s, [Fail clr e])"
| "resume c now (AwaitProposal clr p) (Resolved m) s =
     (let proposal_id = (case proposal m of None \<Rightarrow> Absent | Some i \<Rightarrow> i)
      in if \<not> truthy proposal_id then (s, [Fail clr ''No proposal id returned''])
         else case send c now (W_buy proposal_id (js_Number c (o_stake p))) ''buy'' (AwaitBuy clr p) s of
                Inl e \<Rightarrow> (s, [Fail clr e])
              | Inr s1 \<Rightarrow> (s1, []))"
| "resume c now (AwaitBuy clr p) (Rejected e) s = (s, [Fail clr e])"
| "resume c now (AwaitBuy clr p) (Resolved m) s =
     (let cid = (case buy m of None \<Rightarrow> Absent | Some i \<Rightarrow> i)
      in if \<not> truthy cid then (s, [Fail clr ''No contract_id returned''])
         else (case active s of
                 None \<Rightarrow>
                   (s, [Fail clr (''Cannot set properties of null (setting '' @ [CHR 0x27] @
                                  ''contractId'' @ [CHR 0x27] @ '')'')])
               | Some a \<Rightarrow>
                   (let s1 = s\<lparr>active := Some (a\<lparr>contractId := cid\<rparr>)\<rparr>
                    in (case send c now (W_poc cid) ''proposal_open_contract''
                                (AwaitSubscribe clr p cid) s1 of
                          Inl e \<Rightarrow> (s1, [Fail clr e])
                        | Inr s2 \<Rightarrow> (s2, [])))))"
| "resume c now (AwaitSubscribe clr p cid) (Rejected e) s = (s, [Fail clr e])"
| "resume c now (AwaitSubscribe clr p cid) (Resolved m) s =
     (let s1 = s\<lparr>timers := timers s @ [T_trade cid]\<rparr>
      in case clr of
           FromPlace rid \<Rightarrow>
             (s1\<lparr>outbox := outbox s1 @
                 [PlaceReturn \<lparr>accepted = True, queued = False, request_id = rid,
                               queue_position = None\<rparr>]\<rparr>, [])
         | _ \<Rightarrow> (s1, []))"

text \<open>The timeout callback armed at the end of \<open>_startTrade\<close>.\<close>

definition on_trade_timeout :: "cfg \<Rightarrow> nat \<Rightarrow> jv \<Rightarrow> st \<Rightarrow> st \<times> job list" where
  "on_trade_timeout c now cid s =
     (case active s of
        None \<Rightarrow> (s, [])
      | Some a \<Rightarrow>
          if contractId a = cid \<and> inProgress s
          then finishTrade c now (s\<lparr>lastResult := Some (timeout_result now cid)\<rparr>)
          else (s, []))"

section \<open>The message handler\<close>

text \<open>Lines 87-95. Reading \<open>msg.tick.quote\<close> for the log throws when there is no tick.\<close>

definition on_tick :: "cfg \<Rightarrow> msg \<Rightarrow> st \<Rightarrow> st" where
  "on_tick c m s =
     (let b = ticks_buffer s @ [m_tick m];
          s1 = s\<lparr>ticks_symbol :=
                    js_or (case m_tick m of None \<Rightarrow> Absent | Some t \<Rightarrow> symbol t) (ticks_symbol s),
                  ticks_last := m_tick m,
                  ticks_buffer :=
                    (if length b > maxTicksBuffer c then drop (length b - maxTicksBuffer c) b else b)\<rparr>
      in if logTicks c \<and> m_tick m = None then s1\<lparr>crashed := True\<rparr> else s1)"

text \<open>Lines 97-102.\<close>

definition on_buy :: "msg \<Rightarrow> st \<Rightarrow> st" where
  "on_buy m s =
     (case active s of
        None \<Rightarrow> s
      | Some a \<Rightarrow>
          let cid = (case buy m of None \<Rightarrow> Absent | Some i \<Rightarrow> i)
          in if truthy cid then s\<lparr>active := Some (a\<lparr>contractId := cid\<rparr>)\<rparr> else s)"

text \<open>
  Lines 104-129. The first component says that the handler returned early, which skips
  the rest of the message handler.
\<close>

definition is_final :: "poc \<Rightarrow> bool" where
  "is_final p = (truthy (is_sold p) \<or> status p = JStr ''won'' \<or> status p = JStr ''lost'')"

definition on_poc :: "cfg \<Rightarrow> nat \<Rightarrow> msg \<Rightarrow> st \<Rightarrow> bool \<times> st \<times> job list" where
  "on_poc c now m s =
     (case proposal_open_contract m of
        None \<Rightarrow> (True, s, [])
      | Some p \<Rightarrow>
          (case active s of
             None \<Rightarrow> (True, s, [])
           | Some a \<Rightarrow>
               if contractId a \<noteq> contract_id p then (True, s, [])
               else if is_final p then
                 (let (s1, js) = finishTrade c now (s\<lparr>lastResult := Some (settled_result now p)\<rparr>)
                  in (False, s1, js))
               else (False, s, [])))"

definition on_message :: "cfg \<Rightarrow> nat \<Rightarrow> msg \<Rightarrow> st \<Rightarrow> st \<times> job list" where
  "on_message c now m s =
     (let (s1, j1) = resolve_pending m s;
          s2 = (if msg_type m = JStr ''tick'' then on_tick c m s1 else s1)
      in if crashed s2 then (s2, j1)
         else
           let s3 = (if msg_type m = JStr ''buy'' then on_buy m s2 else s2);
               (ret, s4, j2) = (if msg_type m = JStr ''proposal_open_contract''
                                then on_poc c now m s3 else (False, s3, []))
           in if ret then (s4, j1 @ j2)
              else ((case error m of
                       Some e \<Rightarrow> s4\<lparr>lastError := Some (render_error e)\<rparr>
                     | None \<Rightarrow> s4), j1 @ j2))"

text \<open>
  What arrives on the socket: a payload on which \<open>JSON.parse\<close> throws, or one that
  parses to an object. Lines 70-76.
\<close>

datatype frame = Malformed string | Json msg

definition ws_message :: "cfg \<Rightarrow> nat \<Rightarrow> frame \<Rightarrow> st \<Rightarrow> st \<times> job list" where
  "ws_message c now f s =
     (case f of
        Malformed b \<Rightarrow> (s, [])
      | Json m \<Rightarrow> on_message c now m s)"

section \<open>Connection manager\<close>

definition connect :: "st \<Rightarrow> st" where
  "connect s =
     (if ws s = Some OPEN \<or> ws s = Some CONNECTING then s
      else s\<lparr>connected := False, authorized := False, ws := Some CONNECTING\<rparr>)"

text \<open>The delay computed by \<open>_reconnect\<close> from the counter it has just incremented.\<close>

definition reconnect_delay :: "cfg \<Rightarrow> nat \<Rightarrow> nat" where
  "reconnect_delay c attempt =
     min (reconnectMaxDelayMs c) (reconnectBaseDelayMs c * 2 ^ (min attempt 8))"

text \<open>\<open>_reconnect\<close> up to its \<open>sleep\<close>; the rest runs when the timer fires.\<close>

definition reconnect :: "cfg \<Rightarrow> st \<Rightarrow> st" where
  "reconnect c s =
     (let a = reconnectAttempt s + 1
      in s\<lparr>reconnectAttempt := a,
           outbox := outbox s @ [WarnReconnecting (reconnect_delay c a)],
           timers := timers s @ [T_reconnect (reconnect_delay c a)]\<rparr>)"

text \<open>The open handler up to its first \<open>await\<close>; the socket is open when it runs.\<close>

definition on_open :: "cfg \<Rightarrow> nat \<Rightarrow> st \<Rightarrow> st \<times> job list" where
  "on_open c now s =
     (let s1 = s\<lparr>ws := Some OPEN, connected := True, lastError := None,
                 reconnectAttempt := 0, pingTimer := True\<rparr>
      in case send c now (W_authorize (token c)) ''authorize'' AwaitAuthorize s1 of
           Inl e \<Rightarrow> (s1, [Fail FromOpen e])
         | Inr s2 \<Rightarrow> (s2, []))"

text \<open>The loop of the close handler over \<open>this.pending.entries()\<close>, in insertion order.\<close>

fun reject_all :: "(nat \<times> pentry) list \<Rightarrow> st \<Rightarrow> st \<times> job list" where
  "reject_all [] s = (s, [])"
| "reject_all (e # es) s =
     (let (s1, j1) = settle_promise (p_promise (snd e)) (Rejected ''WebSocket closed'') s;
          (s2, j2) = reject_all es s1
      in (s2, j1 @ j2))"

definition on_close :: "cfg \<Rightarrow> st \<Rightarrow> st \<times> job list" where
  "on_close c s =
     (let s1 = s\<lparr>ws := Some CLOSED, connected := False, authorized := False, pingTimer := False\<rparr>;
          (s2, js) = reject_all (pending s1) s1;
          s3 = s2\<lparr>pending := []\<rparr>
      in (reconnect c s3, js))"

text \<open>\<open>POST /set-defaults\<close> of the HTTP layer.\<close>

definition set_defaults :: "cfg \<Rightarrow> jv \<Rightarrow> jv \<Rightarrow> jv \<Rightarrow> st \<Rightarrow> st" where
  "set_defaults c sy cu ba s =
     (let s1 = (if truthy sy then s\<lparr>defaults_symbol := js_String c sy\<rparr> else s);
          s2 = (if truthy cu then s1\<lparr>defaults_currency := js_String c cu\<rparr> else s1)
      in if truthy ba then s2\<lparr>defaults_basis := js_String c ba\<rparr> else s2)"

section \<open>Events and runs\<close>

text \<open>
  One event is one callback of the event loop: a call from the HTTP layer, an event of
  the socket, or a timer that fires. An event the runtime cannot deliver in the current
  state (an open event on a socket that is not connecting, a timer that is not armed)
  leaves the state as it is. Durations are not measured: an armed timer may fire at
  any later event, and it stays armed until it fires, as no timeout is ever cleared.
\<close>

datatype event =
    Connect
  | WsOpen
  | WsClosing
  | WsClose
  | WsError string
  | WsMessage frame
  | Timer timer
  | Ping
  | PlaceTrade order
  | SubscribeTicks jv
  | SetDefaults jv jv jv

definition fire :: "cfg \<Rightarrow> nat \<Rightarrow> timer \<Rightarrow> st \<Rightarrow> st \<times> job list" where
  "fire c now t s =
     (case t of
        T_request rid h ty \<Rightarrow> expire rid h ty s
      | T_trade cid \<Rightarrow> on_trade_timeout c now cid s
      | T_reconnect d \<Rightarrow> (connect s, []))"

definition handle :: "cfg \<Rightarrow> nat \<Rightarrow> event \<Rightarrow> st \<Rightarrow> st \<times> job list" where
  "handle c now ev s =
     (case ev of
        Connect \<Rightarrow> (connect s, [])
      | WsOpen \<Rightarrow> (if ws s = Some CONNECTING then on_open c now s else (s, []))
      | WsClosing \<Rightarrow> (if ws s = Some OPEN then (s\<lparr>ws := Some CLOSING\<rparr>, []) else (s, []))
      | WsClose \<Rightarrow>
          (if ws s = Some CONNECTING \<or> ws s = Some OPEN \<or> ws s = Some CLOSING
           then on_close c s else (s, []))
      | WsError e \<Rightarrow> (if ws s = None then (s, []) else (s\<lparr>lastError := Some e\<rparr>, []))
      | WsMessage f \<Rightarrow>
          (if ws s = Some OPEN \<or> ws s = Some CLOSING then ws_message c now f s else (s, []))
      | Timer t \<Rightarrow>
          (if t \<in> set (timers s) then fire c now t (s\<lparr>timers := remove1 t (timers s)\<rparr>)
           else (s, []))
      | Ping \<Rightarrow>
          (if pingTimer s \<and> ws s = Some OPEN
           then (s\<lparr>outbox := outbox s @ [WsSend W_ping]\<rparr>, []) else (s, []))
      | PlaceTrade tradePayload \<Rightarrow> placeTrade c now tradePayload s
      | SubscribeTicks sy \<Rightarrow> subscribeTicks c now (FromHttp sy) sy s
      | SetDefaults sy cu ba \<Rightarrow> (set_defaults c sy cu ba s, []))"

text \<open>
  After the callback the microtask queue is emptied. The queued reactions run in
  order. A rejection they cause is handled one turn later by the \<open>.catch\<close> of
  \<open>_finishTrade\<close>, by the open handler or by the caller of \<open>subscribeTicks\<close>; it
  passes through \<open>placeTrade\<close> first on its way to the HTTP layer, which therefore sees
  it after those.
\<close>

fun run_job :: "cfg \<Rightarrow> nat \<Rightarrow> st \<times> job list \<Rightarrow> job \<Rightarrow> st \<times> job list" where
  "run_job c now (s, later) (Resume k r) =
     (let (s1, js) = resume c now k r s in (s1, later @ js))"
| "run_job c now (s, later) (Fail clr e) = (fail_to now clr e s, later)"

definition to_place :: "job \<Rightarrow> bool" where
  "to_place j = (case j of Fail (FromPlace rid) e \<Rightarrow> True | _ \<Rightarrow> False)"

definition drain :: "cfg \<Rightarrow> nat \<Rightarrow> st \<times> job list \<Rightarrow> st" where
  "drain c now sj =
     (let (s1, later) = foldl (run_job c now) (fst sj, []) (snd sj);
          s2 = fst (foldl (run_job c now) (s1, []) (filter (\<lambda>j. \<not> to_place j) later))
      in fst (foldl (run_job c now) (s2, []) (filter to_place later)))"

definition step :: "cfg \<Rightarrow> nat \<Rightarrow> event \<Rightarrow> st \<Rightarrow> st" where
  "step c now ev s =
     (if crashed s then s
      else let sj = handle c now ev s
           in if crashed (fst sj) then fst sj else drain c now sj)"

text \<open>A run: events in the order the event loop delivers them, each with the clock.\<close>

fun run :: "cfg \<Rightarrow> (nat \<times> event) list \<Rightarrow> st \<Rightarrow> st" where
  "run c [] s = s"
| "run c (e # es) s = run c es (step c (fst e) (snd e) s)"

section \<open>Notions used in the properties\<close>

text \<open>The tick handler applied to a sequence of tick messages, in arrival order.\<close>

definition on_ticks :: "cfg \<Rightarrow> msg list \<Rightarrow> st \<Rightarrow> st" where
  "on_ticks c ms s = foldl (\<lambda>s m. on_tick c m s) s ms"

text \<open>The lock flag says exactly whether the execution slot holds a trade.\<close>

definition slot_ok :: "st \<Rightarrow> bool" where
  "slot_ok s = (inProgress s = (active s \<noteq> None))"

text \<open>
  How the occupant of the slot can change. Two records of the slot stand for the same
  trade when they differ at most in the contract id. \<open>kept\<close>: the queue is the same
  and the occupant, if there is one, is the trade that was there before. \<open>same_slot\<close>:
  moreover a held slot is still held and no random number was drawn. \<open>entered\<close>, for
  the states before and after an event: the occupant afterwards is the trade that held
  the slot before, or it is the head of the queue, taken from the queue, the slot
  having been held before; on a free slot only a submission can put a trade there, and
  it is the submitted order.
\<close>

definition same_trade :: "active_trade \<Rightarrow> active_trade \<Rightarrow> bool" where
  "same_trade a b =
     (a_requestId b = a_requestId a \<and> startedAt b = startedAt a \<and> a_payload b = a_payload a)"

definition kept :: "st \<Rightarrow> st \<Rightarrow> bool" where
  "kept s s' =
     (queue s' = queue s \<and>
      (case active s' of
         None \<Rightarrow> True
       | Some b \<Rightarrow> (case active s of None \<Rightarrow> False | Some a \<Rightarrow> same_trade a b)))"

definition entered :: "cfg \<Rightarrow> event \<Rightarrow> st \<Rightarrow> st \<Rightarrow> bool" where
  "entered c ev s s' =
     (case active s' of
        None \<Rightarrow> True
      | Some b \<Rightarrow>
          (case active s of
             Some a \<Rightarrow>
               same_trade a b \<or>
               (case queue s of [] \<Rightarrow> False | p # ps \<Rightarrow> a_payload b = p \<and> queue s' = ps)
           | None \<Rightarrow>
               (case ev of
                  PlaceTrade ord \<Rightarrow>
                    a_payload b = order.extend ord (payload.fields (rnd c (draws s) mod 1000000000))
                | _ \<Rightarrow> False)))"

definition same_slot :: "st \<Rightarrow> st \<Rightarrow> bool" where
  "same_slot s t =
     (queue t = queue s \<and> draws t = draws s \<and>
      (case active s of
         None \<Rightarrow> active t = None
       | Some a \<Rightarrow> (case active t of None \<Rightarrow> False | Some b \<Rightarrow> same_trade a b)))"

text \<open>
  The delays announced by \<open>_reconnect\<close>, in order; \<open>k\<close> consecutive failures of the
  connection, starting with the counter at \<open>a\<close>: each is a close event followed by the
  reconnect timer it armed; and what the microtasks of an event leave alone.
\<close>

fun reconnect_log :: "out list \<Rightarrow> nat list" where
  "reconnect_log [] = []"
| "reconnect_log (WarnReconnecting d # os) = d # reconnect_log os"
| "reconnect_log (x # os) = reconnect_log os"

fun fail_events :: "cfg \<Rightarrow> nat \<Rightarrow> nat \<Rightarrow> (nat \<times> event) list" where
  "fail_events c a 0 = []"
| "fail_events c a (Suc k) =
     [(0, WsClose), (0, Timer (T_reconnect (reconnect_delay c (Suc a))))] @ fail_events c (Suc a) k"

definition conn_eq :: "st \<Rightarrow> st \<Rightarrow> bool" where
  "conn_eq s s' = (ws s' = ws s \<and> crashed s' = crashed s \<and> reconnectAttempt s' = reconnectAttempt s \<and>
     reconnect_log (outbox s') = reconnect_log (outbox s) \<and> set (timers s) \<subseteq> set (timers s'))"

text \<open>
  Notions for the settlement of a trade: the guard of both finalisers (an active trade
  whose contract id is \<open>cid\<close>); a message that answers a pending request (the condition
  of line 79); a settlement event for \<open>cid\<close> and a final one; the two events that
  finalise the trade with contract \<open>cid\<close> in state \<open>s\<close> (the timer that is armed for
  it, or a final settlement event that does not hand out \<open>cid\<close> as the id of a
  purchase); an event that answers a pending request; the two finalisers arriving
  later, the message then as a stream event; an event by which the venue assigns \<open>cid\<close>
  to a purchase; and the part of the state that a finaliser writes.
\<close>

definition tracks :: "jv \<Rightarrow> st \<Rightarrow> bool" where
  "tracks cid s = (case active s of None \<Rightarrow> False | Some a \<Rightarrow> contractId a = cid)"












subsection \<open>A concrete configuration and concrete inputs\<close>

definition cfg0 :: cfg where
  "cfg0 = \<lparr>token = ''tok'', reconnectBaseDelayMs = 500, reconnectMaxDelayMs = 10000,
            maxTicksBuffer = 2, logTicks = False, rnd = (\<lambda>n. n + 7),
            js_Number = (\<lambda>v. v), js_String = (\<lambda>v. v)\<rparr>"

definition msg0 :: msg where
  "msg0 = \<lparr>req_id = Absent, msg_type = Absent, error = None, m_tick = None, buy = None,
            proposal = None, proposal_open_contract = None\<rparr>"

definition tick_msg :: "int \<Rightarrow> msg" where
  "tick_msg q = msg0\<lparr>msg_type := JStr ''tick'',
                     m_tick := Some \<lparr>symbol = JStr ''R_50'', quote = JNum q, epoch = JNum q\<rparr>\<rparr>"

definition st0 :: st where
  "st0 = init (JStr ''R_50'') (JStr ''USD'')"

definition order0 :: order where
  "order0 = \<lparr>o_symbol = Absent, o_contract_type = JStr ''DIGITEVEN'', o_duration = JNum 3,
              o_duration_unit = JStr ''t'', o_stake = JNum 1, o_currency = Absent,
              o_basis = Absent, o_barrier = Absent, o_prediction = Absent\<rparr>"

text \<open>
  Connecting, the socket opening, the answer to the authorisation request (id 7) and
  the answer to the tick subscription (id 8); then a first order.
\<close>

definition evs_ready :: "(nat \<times> event) list" where
  "evs_ready =
     [(0, Connect), (1, WsOpen),
      (2, WsMessage (Json (msg0\<lparr>req_id := JNum 7, msg_type := JStr ''authorize''\<rparr>))),
      (3, WsMessage (Json (msg0\<lparr>req_id := JNum 8, msg_type := JStr ''tick''\<rparr>)))]"

definition evs_busy :: "(nat \<times> event) list" where
  "evs_busy = evs_ready @ [(4, PlaceTrade order0)]"

text \<open>
  The venue answers the proposal request (id 10) without a proposal id; then a second
  order arrives.
\<close>

definition evs_no_id :: "(nat \<times> event) list" where
  "evs_no_id = evs_busy @
     [(5, WsMessage (Json (msg0\<lparr>req_id := JNum 10, msg_type := JStr ''proposal''\<rparr>))),
      (6, PlaceTrade order0)]"

text \<open>
  The venue answers the proposal (id 10), the buy (id 11) and the subscription to the
  contract (id 12); the contract 555 is still open.
\<close>

definition open_poc :: poc where
  "open_poc = \<lparr>contract_id = JNum 555, status = JStr ''open'', is_sold = JNum 0,
               profit = JNum 0, payout = JNum 2, buy_price = JNum 1, sell_price = Absent,
               exit_tick = Absent, exit_tick_time = Absent, transaction_ids = Absent\<rparr>"

definition evs_started :: "(nat \<times> event) list" where
  "evs_started = evs_busy @
     [(5, WsMessage (Json (msg0\<lparr>req_id := JNum 10, msg_type := JStr ''proposal'',
                                 proposal := Some (JStr ''p1'')\<rparr>))),
      (6, WsMessage (Json (msg0\<lparr>req_id := JNum 11, msg_type := JStr ''buy'',
                                 buy := Some (JNum 555)\<rparr>))),
      (7, WsMessage (Json (msg0\<lparr>req_id := JNum 12, msg_type := JStr ''proposal_open_contract'',
                                 proposal_open_contract := Some open_poc\<rparr>)))]"

text \<open>A random source that returns the same number every time.\<close>

definition cfg7 :: cfg where
  "cfg7 = cfg0\<lparr>rnd := (\<lambda>n. 7)\<rparr>"

definition evs_auth7 :: "(nat \<times> event) list" where
  "evs_auth7 =
     [(0, Connect), (1, WsOpen),
      (2, WsMessage (Json (msg0\<lparr>req_id := JNum 7, msg_type := JStr ''authorize''\<rparr>)))]"

definition evs_collide :: "(nat \<times> event) list" where
  "evs_collide = evs_auth7 @ [(3, SubscribeTicks (JStr ''R_100''))]"



text \<open>Five failures of the connection in a row; three failures and then an open socket.\<close>

definition evs_five :: "(nat \<times> event) list" where
  "evs_five =
     [(0, Connect), (1, WsClose), (2, Timer (T_reconnect 1000)), (3, WsClose),
      (4, Timer (T_reconnect 2000)), (5, WsClose), (6, Timer (T_reconnect 4000)),
      (7, WsClose), (8, Timer (T_reconnect 8000)), (9, WsClose)]"

definition evs_reopen :: "(nat \<times> event) list" where
  "evs_reopen =
     [(0, Connect), (1, WsClose), (2, Timer (T_reconnect 1000)), (3, WsClose),
      (4, Timer (T_reconnect 2000)), (5, WsClose), (6, Timer (T_reconnect 4000)),
      (7, WsOpen)]"

text \<open>
  While the first trade still awaits the answer to its proposal request, a settlement
  event with a null contract id arrives; a second order follows; then the venue answers
  both proposal requests (ids 10 and 12).
\<close>

definition null_settlement :: msg where
  "null_settlement =
     msg0\<lparr>msg_type := JStr ''proposal_open_contract'',
           proposal_open_contract :=
             Some (open_poc\<lparr>contract_id := JNull, status := JStr ''sold'', is_sold := JNum 1\<rparr>)\<rparr>"

definition evs_two_buys :: "(nat \<times> event) list" where
  "evs_two_buys = evs_busy @
     [(5, WsMessage (Json null_settlement)), (6, PlaceTrade order0),
      (7, WsMessage (Json (msg0\<lparr>req_id := JNum 10, msg_type := JStr ''proposal'',
                                 proposal := Some (JStr ''p1'')\<rparr>))),
      (8, WsMessage (Json (msg0\<lparr>req_id := JNum 12, msg_type := JStr ''proposal'',
                                 proposal := Some (JStr ''p2'')\<rparr>)))]"



text \<open>
  After the collision on id 7: the timer of the authorisation request, which was
  answered long ago, fires; then the answer with id 7 arrives; then the timer of the
  last request fires.
\<close>

definition evs_lost :: "(nat \<times> event) list" where
  "evs_lost = evs_collide @
     [(4, Timer (T_request 7 0 ''authorize'')),
      (5, WsMessage (Json (msg0\<lparr>req_id := JNum 7, msg_type := JStr ''tick''\<rparr>))),
      (15, Timer (T_request 7 2 ''ticks_subscribe''))]"

section \<open>The execution slot\<close>

lemma to_place_simps [simp]:
  "to_place (Fail (FromPlace rid) e) = True"
  "to_place (Fail FromFinish e) = False"
  "to_place (Fail FromOpen e) = False"
  "to_place (Fail (FromHttp sy) e) = False"
  "to_place (Resume k r) = False"
  by (simp_all add: to_place_def)

lemma slot_ok_upd [simp]:
  "slot_ok (s\<lparr>connected := x0\<rparr>) = slot_ok s"
  "slot_ok (s\<lparr>authorized := x1\<rparr>) = slot_ok s"
  "slot_ok (s\<lparr>lastError := x2\<rparr>) = slot_ok s"
  "slot_ok (s\<lparr>defaults_symbol := x3\<rparr>) = slot_ok s"
  "slot_ok (s\<lparr>defaults_currency := x4\<rparr>) = slot_ok s"
  "slot_ok (s\<lparr>defaults_basis := x5\<rparr>) = slot_ok s"
  "slot_ok (s\<lparr>ticks_symbol := x6\<rparr>) = slot_ok s"
  "slot_ok (s\<lparr>ticks_last := x7\<rparr>) = slot_ok s"
  "slot_ok (s\<lparr>ticks_buffer := x8\<rparr>) = slot_ok s"
  "slot_ok (s\<lparr>queue := x9\<rparr>) = slot_ok s"
  "slot_ok (s\<lparr>lastResult := x10\<rparr>) = slot_ok s"
  "slot_ok (s\<lparr>ws := x11\<rparr>) = slot_ok s"
  "slot_ok (s\<lparr>pingTimer := x12\<rparr>) = slot_ok s"
  "slot_ok (s\<lparr>reconnectAttempt := x13\<rparr>) = slot_ok s"
  "slot_ok (s\<lparr>pending := x14\<rparr>) = slot_ok s"
  "slot_ok (s\<lparr>promises := x15\<rparr>) = slot_ok s"
  "slot_ok (s\<lparr>fresh := x16\<rparr>) = slot_ok s"
  "slot_ok (s\<lparr>draws := x17\<rparr>) = slot_ok s"
  "slot_ok (s\<lparr>timers := x18\<rparr>) = slot_ok s"
  "slot_ok (s\<lparr>outbox := x19\<rparr>) = slot_ok s"
  "slot_ok (s\<lparr>crashed := x20\<rparr>) = slot_ok s"
  by (simp_all add: slot_ok_def)

lemma send_Inr:
  "send c now body ty k s = Inr s' \<Longrightarrow>
     ws s = Some OPEN \<and>
     s' = s\<lparr>draws := Suc (draws s), fresh := Suc (fresh s),
            pending := AList.update (rnd c (draws s) mod 1000000000)
                         \<lparr>p_promise = fresh s, p_ts = now, p_type = ty\<rparr> (pending s),
            promises := promises s @ [(fresh s, k)],
            timers := timers s @ [T_request (rnd c (draws s) mod 1000000000) (fresh s) ty],
            outbox := outbox s @ [WsSend (body (rnd c (draws s) mod 1000000000))]\<rparr>"
  by (auto simp: send_def nextReqId_def Let_def split: if_splits)

lemma send_Inl: "send c now body ty k s = Inl e \<Longrightarrow> ws s \<noteq> Some OPEN \<and> e = ''WebSocket not open''"
  by (auto simp: send_def nextReqId_def Let_def split: if_splits)

lemma startTrade_slot: "slot_ok s \<Longrightarrow> slot_ok (fst (startTrade c now clr p s))"
  by (auto simp: startTrade_def slot_ok_def Let_def split: sum.splits dest!: send_Inr)

lemma finishTrade_slot: "slot_ok (fst (finishTrade c now s))"
proof (cases "queue s")
  case Nil
  then show ?thesis by (simp add: finishTrade_def slot_ok_def)
next
  case (Cons p ps)
  have "slot_ok (s\<lparr>active := None, inProgress := False, queue := ps\<rparr>)"
    by (simp add: slot_ok_def)
  then show ?thesis using Cons
    by (simp add: finishTrade_def startTrade_slot)
qed

lemma fail_to_slot: "slot_ok s \<Longrightarrow> slot_ok (fail_to now clr e s)"
  by (auto simp: fail_to_def slot_ok_def split: caller.splits)

lemma subscribeTicks_slot: "slot_ok s \<Longrightarrow> slot_ok (fst (subscribeTicks c now clr sy s))"
  by (auto simp: subscribeTicks_def slot_ok_def Let_def split: sum.splits dest!: send_Inr)

lemma resume_slot: "slot_ok s \<Longrightarrow> slot_ok (fst (resume c now k r s))"
  apply (cases k; cases r)
  apply (auto simp: slot_ok_def Let_def subscribeTicks_def split: sum.splits option.splits caller.splits dest!: send_Inr)
  done

lemma settle_promise_slot: "slot_ok s \<Longrightarrow> slot_ok (fst (settle_promise h r s))"
  by (auto simp: settle_promise_def slot_ok_def split: option.splits)

lemma resolve_pending_slot: "slot_ok s \<Longrightarrow> slot_ok (fst (resolve_pending m s))"
  by (auto simp: resolve_pending_def settle_promise_def slot_ok_def split: option.splits jv.splits)

lemma expire_slot: "slot_ok s \<Longrightarrow> slot_ok (fst (expire rid h ty s))"
  by (auto simp: expire_def settle_promise_def slot_ok_def split: option.splits)

lemma reject_all_slot: "slot_ok s \<Longrightarrow> slot_ok (fst (reject_all es s))"
proof (induction es arbitrary: s)
  case Nil
  then show ?case by simp
next
  case (Cons e es)
  then show ?case
    by (simp add: split_beta Let_def settle_promise_slot)
qed

lemma reject_all_fields:
  "inProgress (fst (reject_all es s)) = inProgress s \<and> active (fst (reject_all es s)) = active s"
  by (induction es arbitrary: s) (auto simp: split_beta Let_def settle_promise_def split: option.splits)

lemma on_close_slot: "slot_ok s \<Longrightarrow> slot_ok (fst (on_close c s))"
  using reject_all_fields [of "pending s" "s\<lparr>ws := Some CLOSED, connected := False, authorized := False, pingTimer := False\<rparr>"]
  by (simp add: on_close_def Let_def split_beta reconnect_def slot_ok_def)

lemma on_open_slot: "slot_ok s \<Longrightarrow> slot_ok (fst (on_open c now s))"
  by (auto simp: on_open_def slot_ok_def Let_def split: sum.splits dest!: send_Inr)

lemma on_tick_slot: "slot_ok s \<Longrightarrow> slot_ok (on_tick c m s)"
  by (simp add: on_tick_def slot_ok_def Let_def)

lemma on_buy_slot: "slot_ok s \<Longrightarrow> slot_ok (on_buy m s)"
  by (auto simp: on_buy_def slot_ok_def Let_def split: option.splits)

lemma on_poc_slot: "slot_ok s \<Longrightarrow> slot_ok (fst (snd (on_poc c now m s)))"
  by (auto simp: on_poc_def split_beta finishTrade_slot split: option.splits)

lemma on_message_slot: "slot_ok s \<Longrightarrow> slot_ok (fst (on_message c now m s))"
proof -
  assume a: "slot_ok s"
  have e: "\<And>x t. slot_ok t \<Longrightarrow> slot_ok (t\<lparr>lastError := x\<rparr>)" by (simp add: slot_ok_def)
  show ?thesis using a
    by (simp add: on_message_def Let_def split_beta resolve_pending_slot on_tick_slot on_buy_slot on_poc_slot e split: option.splits)
qed

lemma fire_slot: "slot_ok s \<Longrightarrow> slot_ok (fst (fire c now t s))"
  by (cases t) (auto simp: fire_def expire_slot on_trade_timeout_def finishTrade_slot connect_def split: option.splits)

lemma placeTrade_slot: "slot_ok s \<Longrightarrow> slot_ok (fst (placeTrade c now ord s))"
  by (simp add: placeTrade_def nextReqId_def Let_def startTrade_slot)

lemma handle_slot: "slot_ok s \<Longrightarrow> slot_ok (fst (handle c now ev s))"
proof (cases ev)
  case (WsMessage f)
  assume "slot_ok s"
  then show ?thesis using WsMessage
    by (cases f) (simp_all add: handle_def ws_message_def on_message_slot)
qed (auto simp: handle_def on_open_slot on_close_slot subscribeTicks_slot connect_def
      set_defaults_def Let_def fire_slot placeTrade_slot)

lemma run_job_slot: "slot_ok (fst sj) \<Longrightarrow> slot_ok (fst (run_job c now sj j))"
  by (cases sj; cases j) (simp_all add: split_beta resume_slot fail_to_slot)

lemma foldl_run_job_slot: "slot_ok (fst sj) \<Longrightarrow> slot_ok (fst (foldl (run_job c now) sj js))"
  by (induction js arbitrary: sj) (simp_all add: run_job_slot)

lemma drain_slot: "slot_ok (fst sj) \<Longrightarrow> slot_ok (drain c now sj)"
  by (simp add: drain_def split_beta Let_def foldl_run_job_slot)

lemma step_slot: "slot_ok s \<Longrightarrow> slot_ok (step c now ev s)"
  by (simp add: step_def Let_def handle_slot drain_slot)

lemma run_slot: "slot_ok s \<Longrightarrow> slot_ok (run c evs s)"
  by (induction evs arbitrary: s) (simp_all add: step_slot)



lemmas eval_defs = step_def handle_def drain_def connect_def on_open_def send_def nextReqId_def
  ws_message_def on_message_def resolve_pending_def settle_promise_def on_tick_def on_buy_def
  on_poc_def subscribeTicks_def placeTrade_def startTrade_def finishTrade_def build_proposal_def
  fail_to_def js_or_def is_final_def fire_def expire_def on_trade_timeout_def on_close_def
  reconnect_def reconnect_delay_def render_error_def error_result_def timeout_result_def
  settled_result_def cfg0_def msg0_def st0_def init_def order0_def Let_def
  order.extend_def payload.fields_def

lemma run_append: "run c (es @ fs) s = run c fs (run c es s)"
  by (induction es arbitrary: s) simp_all

lemma run_ready:
  "run cfg0 evs_ready st0 =
     st0\<lparr>connected := True, authorized := True, ws := Some OPEN, pingTimer := True,
         ticks_symbol := JStr ''R_50'', ticks_buffer := [None], fresh := 2, draws := 2,
         timers := [T_request 7 0 ''authorize'', T_request 8 1 ''ticks_subscribe''],
         outbox := [WsSend (W_authorize ''tok'' 7), WsSend (W_ticks (JStr ''R_50'') 8)]\<rparr>"
  by (simp add: evs_ready_def eval_defs)

lemma kept_upd [simp]:
  "kept s (t\<lparr>connected := x0\<rparr>) = kept s t"
  "kept s (t\<lparr>authorized := x1\<rparr>) = kept s t"
  "kept s (t\<lparr>lastError := x2\<rparr>) = kept s t"
  "kept s (t\<lparr>defaults_symbol := x3\<rparr>) = kept s t"
  "kept s (t\<lparr>defaults_currency := x4\<rparr>) = kept s t"
  "kept s (t\<lparr>defaults_basis := x5\<rparr>) = kept s t"
  "kept s (t\<lparr>ticks_symbol := x6\<rparr>) = kept s t"
  "kept s (t\<lparr>ticks_last := x7\<rparr>) = kept s t"
  "kept s (t\<lparr>ticks_buffer := x8\<rparr>) = kept s t"
  "kept s (t\<lparr>inProgress := x9\<rparr>) = kept s t"
  "kept s (t\<lparr>lastResult := x10\<rparr>) = kept s t"
  "kept s (t\<lparr>ws := x11\<rparr>) = kept s t"
  "kept s (t\<lparr>pingTimer := x12\<rparr>) = kept s t"
  "kept s (t\<lparr>reconnectAttempt := x13\<rparr>) = kept s t"
  "kept s (t\<lparr>pending := x14\<rparr>) = kept s t"
  "kept s (t\<lparr>promises := x15\<rparr>) = kept s t"
  "kept s (t\<lparr>fresh := x16\<rparr>) = kept s t"
  "kept s (t\<lparr>draws := x17\<rparr>) = kept s t"
  "kept s (t\<lparr>timers := x18\<rparr>) = kept s t"
  "kept s (t\<lparr>outbox := x19\<rparr>) = kept s t"
  "kept s (t\<lparr>crashed := x20\<rparr>) = kept s t"
  by (simp_all add: kept_def)

lemma entered_upd [simp]:
  "entered c ev s (t\<lparr>connected := x0\<rparr>) = entered c ev s t"
  "entered c ev s (t\<lparr>authorized := x1\<rparr>) = entered c ev s t"
  "entered c ev s (t\<lparr>lastError := x2\<rparr>) = entered c ev s t"
  "entered c ev s (t\<lparr>defaults_symbol := x3\<rparr>) = entered c ev s t"
  "entered c ev s (t\<lparr>defaults_currency := x4\<rparr>) = entered c ev s t"
  "entered c ev s (t\<lparr>defaults_basis := x5\<rparr>) = entered c ev s t"
  "entered c ev s (t\<lparr>ticks_symbol := x6\<rparr>) = entered c ev s t"
  "entered c ev s (t\<lparr>ticks_last := x7\<rparr>) = entered c ev s t"
  "entered c ev s (t\<lparr>ticks_buffer := x8\<rparr>) = entered c ev s t"
  "entered c ev s (t\<lparr>inProgress := x9\<rparr>) = entered c ev s t"
  "entered c ev s (t\<lparr>lastResult := x10\<rparr>) = entered c ev s t"
  "entered c ev s (t\<lparr>ws := x11\<rparr>) = entered c ev s t"
  "entered c ev s (t\<lparr>pingTimer := x12\<rparr>) = entered c ev s t"
  "entered c ev s (t\<lparr>reconnectAttempt := x13\<rparr>) = entered c ev s t"
  "entered c ev s (t\<lparr>pending := x14\<rparr>) = entered c ev s t"
  "entered c ev s (t\<lparr>promises := x15\<rparr>) = entered c ev s t"
  "entered c ev s (t\<lparr>fresh := x16\<rparr>) = entered c ev s t"
  "entered c ev s (t\<lparr>draws := x17\<rparr>) = entered c ev s t"
  "entered c ev s (t\<lparr>timers := x18\<rparr>) = entered c ev s t"
  "entered c ev s (t\<lparr>outbox := x19\<rparr>) = entered c ev s t"
  "entered c ev s (t\<lparr>crashed := x20\<rparr>) = entered c ev s t"
  by (simp_all add: entered_def split: option.splits list.splits)

lemma entered_upd_pre [simp]:
  "entered c ev (s\<lparr>connected := x0\<rparr>) t = entered c ev s t"
  "entered c ev (s\<lparr>authorized := x1\<rparr>) t = entered c ev s t"
  "entered c ev (s\<lparr>lastError := x2\<rparr>) t = entered c ev s t"
  "entered c ev (s\<lparr>defaults_symbol := x3\<rparr>) t = entered c ev s t"
  "entered c ev (s\<lparr>defaults_currency := x4\<rparr>) t = entered c ev s t"
  "entered c ev (s\<lparr>defaults_basis := x5\<rparr>) t = entered c ev s t"
  "entered c ev (s\<lparr>ticks_symbol := x6\<rparr>) t = entered c ev s t"
  "entered c ev (s\<lparr>ticks_last := x7\<rparr>) t = entered c ev s t"
  "entered c ev (s\<lparr>ticks_buffer := x8\<rparr>) t = entered c ev s t"
  "entered c ev (s\<lparr>inProgress := x9\<rparr>) t = entered c ev s t"
  "entered c ev (s\<lparr>lastResult := x10\<rparr>) t = entered c ev s t"
  "entered c ev (s\<lparr>ws := x11\<rparr>) t = entered c ev s t"
  "entered c ev (s\<lparr>pingTimer := x12\<rparr>) t = entered c ev s t"
  "entered c ev (s\<lparr>reconnectAttempt := x13\<rparr>) t = entered c ev s t"
  "entered c ev (s\<lparr>pending := x14\<rparr>) t = entered c ev s t"
  "entered c ev (s\<lparr>promises := x15\<rparr>) t = entered c ev s t"
  "entered c ev (s\<lparr>fresh := x16\<rparr>) t = entered c ev s t"
  "entered c ev (s\<lparr>timers := x17\<rparr>) t = entered c ev s t"
  "entered c ev (s\<lparr>outbox := x18\<rparr>) t = entered c ev s t"
  "entered c ev (s\<lparr>crashed := x19\<rparr>) t = entered c ev s t"
  by (simp_all add: entered_def split: option.splits list.splits event.splits)

lemma kept_refl [simp]: "kept s s"
  by (simp add: kept_def same_trade_def split: option.splits)

lemma kept_trans: "kept s t \<Longrightarrow> kept t u \<Longrightarrow> kept s u"
  by (auto simp: kept_def same_trade_def split: option.splits)

lemma kept_entered: "kept s s' \<Longrightarrow> entered c ev s s'"
  by (auto simp: kept_def entered_def split: option.splits)

lemma entered_kept: "entered c ev s t \<Longrightarrow> kept t u \<Longrightarrow> entered c ev s u"
  by (auto simp: kept_def entered_def same_trade_def split: option.splits list.splits event.splits)

lemma send_kept: "send c now body ty k s = Inr s' \<Longrightarrow> kept s s'"
  by (auto dest!: send_Inr simp: kept_def same_trade_def split: option.splits)

lemma fail_to_kept: "kept s (fail_to now clr e s)"
  by (auto simp: fail_to_def kept_def same_trade_def split: caller.splits option.splits)

lemma resume_kept: "kept s (fst (resume c now k r s))"
  apply (cases k; cases r)
  apply (auto simp: Let_def subscribeTicks_def kept_def same_trade_def split: sum.splits option.splits caller.splits dest!: send_Inr)
  done

lemma run_job_kept: "kept s (fst sj) \<Longrightarrow> kept s (fst (run_job c now sj j))"
  by (cases sj; cases j) (auto simp: split_beta intro: kept_trans resume_kept fail_to_kept)

lemma foldl_run_job_kept: "kept s (fst sj) \<Longrightarrow> kept s (fst (foldl (run_job c now) sj js))"
  by (induction js arbitrary: sj) (simp_all add: run_job_kept)

lemma drain_kept: "kept s (drain c now (s, js))"
  by (simp add: drain_def split_beta Let_def foldl_run_job_kept)

lemma startTrade_entered:
  "active s = None \<Longrightarrow>
   (case active (fst (startTrade c now clr p s)) of None \<Rightarrow> True | Some b \<Rightarrow> a_payload b = p) \<and>
   queue (fst (startTrade c now clr p s)) = queue s"
  by (auto simp: startTrade_def Let_def split: sum.splits option.splits dest!: send_Inr)

lemma finishTrade_entered:
  "active s \<noteq> None \<Longrightarrow> entered c ev s (fst (finishTrade c now s))"
proof (cases "queue s")
  case Nil
  then show ?thesis by (simp add: finishTrade_def entered_def)
next
  case (Cons p ps)
  assume a: "active s \<noteq> None"
  let ?s = "s\<lparr>active := None, inProgress := False, queue := ps\<rparr>"
  have "active ?s = None" by simp
  from startTrade_entered [OF this, where c = c and now = now and clr = FromFinish and p = p]
  show ?thesis using Cons a
    by (auto simp: finishTrade_def entered_def split: option.splits)
qed

lemma finishTrade_entered':
  "active s \<noteq> None \<Longrightarrow> entered c ev s (fst (finishTrade c now (s\<lparr>lastResult := x\<rparr>)))"
  using finishTrade_entered [where s = "s\<lparr>lastResult := x\<rparr>" and c = c and ev = ev and now = now]
  by (auto simp: entered_def split: option.splits)


lemma settle_promise_kept: "kept s (fst (settle_promise h r s))"
  by (auto simp: settle_promise_def kept_def same_trade_def split: option.splits)

lemma resolve_pending_kept: "kept s (fst (resolve_pending m s))"
  by (auto simp: resolve_pending_def settle_promise_def kept_def same_trade_def
           split: option.splits jv.splits)

lemma expire_kept: "kept s (fst (expire rid h ty s))"
  by (auto simp: expire_def settle_promise_def kept_def same_trade_def split: option.splits)

lemma reject_all_kept: "kept s (fst (reject_all es s))"
proof (induction es arbitrary: s)
  case Nil
  show ?case by simp
next
  case (Cons e es)
  have "kept s (fst (settle_promise (p_promise (snd e)) (Rejected ''WebSocket closed'') s))"
    by (rule settle_promise_kept)
  from kept_trans [OF this Cons.IH] show ?case
    by (simp add: split_beta Let_def)
qed

lemma on_close_kept: "kept s (fst (on_close c s))"
proof -
  let ?s1 = "s\<lparr>ws := Some CLOSED, connected := False, authorized := False, pingTimer := False\<rparr>"
  have 1: "kept s ?s1" by (auto simp: kept_def same_trade_def split: option.splits)
  have 2: "kept ?s1 (fst (reject_all (pending ?s1) ?s1))" by (rule reject_all_kept)
  have 3: "kept (fst (reject_all (pending ?s1) ?s1)) (fst (on_close c s))"
    by (auto simp: on_close_def Let_def split_beta reconnect_def kept_def same_trade_def
             split: option.splits)
  from 1 2 3 show ?thesis by (blast intro: kept_trans)
qed

lemma on_open_kept: "kept s (fst (on_open c now s))"
  by (auto simp: on_open_def Let_def kept_def same_trade_def split: sum.splits option.splits
           dest!: send_Inr)

lemma subscribeTicks_kept: "kept s (fst (subscribeTicks c now clr sy s))"
  by (auto simp: subscribeTicks_def Let_def kept_def same_trade_def split: sum.splits option.splits
           dest!: send_Inr)

lemma on_tick_kept: "kept s (on_tick c m s)"
  by (auto simp: on_tick_def Let_def kept_def same_trade_def split: option.splits)

lemma on_buy_kept: "kept s (on_buy m s)"
  by (auto simp: on_buy_def Let_def kept_def same_trade_def split: option.splits)

lemma on_poc_entered: "entered c ev s (fst (snd (on_poc c now m s)))"
  by (auto simp: on_poc_def split_beta finishTrade_entered' intro: kept_entered split: option.splits)

lemma same_slot_entered: "same_slot s t \<Longrightarrow> entered c ev t u \<Longrightarrow> entered c ev s u"
  by (auto simp: same_slot_def entered_def same_trade_def split: option.splits list.splits event.splits)

lemma same_slot_trans: "same_slot s t \<Longrightarrow> same_slot t u \<Longrightarrow> same_slot s u"
  by (auto simp: same_slot_def same_trade_def split: option.splits)

lemma resolve_pending_same: "same_slot s (fst (resolve_pending m s))"
  by (auto simp: resolve_pending_def settle_promise_def same_slot_def same_trade_def
           split: option.splits jv.splits)

lemma on_tick_same: "same_slot s (on_tick c m s)"
  by (auto simp: on_tick_def Let_def same_slot_def same_trade_def split: option.splits)

lemma on_buy_same: "same_slot s (on_buy m s)"
  by (auto simp: on_buy_def Let_def same_slot_def same_trade_def split: option.splits)

lemma same_slot_refl [simp]: "same_slot s s"
  by (auto simp: same_slot_def same_trade_def split: option.splits)

lemma on_message_entered: "entered c ev s (fst (on_message c now m s))"
proof -
  let ?s1 = "fst (resolve_pending m s)"
  let ?s2 = "if msg_type m = JStr ''tick'' then on_tick c m ?s1 else ?s1"
  let ?s3 = "if msg_type m = JStr ''buy'' then on_buy m ?s2 else ?s2"
  have 2: "same_slot s ?s2"
    using resolve_pending_same [of s m] on_tick_same [of ?s1 c m]
    by (auto intro: same_slot_trans)
  have 3: "same_slot s ?s3"
    using 2 on_buy_same [of ?s2 m] by (auto intro: same_slot_trans)
  have k: "entered c ev s ?s3"
    using 3 by (auto simp: same_slot_def entered_def split: option.splits)
  have p: "entered c ev s (fst (snd (on_poc c now m ?s3)))"
    using 3 on_poc_entered [of c ev ?s3 now m] by (rule same_slot_entered)
  have k2: "entered c ev s ?s2"
    using 2 by (auto simp: same_slot_def entered_def split: option.splits)
  show ?thesis
  proof (cases "crashed ?s2")
    case True
    then show ?thesis using k2 by (simp add: on_message_def Let_def split_beta)
  next
    case False
    show ?thesis
    proof (cases "msg_type m = JStr ''proposal_open_contract''")
      case True
      then show ?thesis using p \<open>\<not> crashed ?s2\<close>
        by (simp add: on_message_def Let_def split_beta split: option.splits)
    next
      case False
      then show ?thesis using k \<open>\<not> crashed ?s2\<close>
        by (auto simp: on_message_def Let_def split_beta split: option.splits if_splits)
    qed
  qed
qed

lemma fire_entered: "entered c ev s (fst (fire c now t s))"
  by (cases t)
     (auto simp: fire_def on_trade_timeout_def connect_def finishTrade_entered'
           intro: kept_entered expire_kept split: option.splits)

lemma placeTrade_entered:
  "slot_ok s \<Longrightarrow> entered c (PlaceTrade ord) s (fst (placeTrade c now ord s))"
proof (cases "inProgress s")
  case True
  assume "slot_ok s"
  then show ?thesis using True
    by (auto simp: placeTrade_def nextReqId_def Let_def slot_ok_def entered_def same_trade_def
             split: option.splits)
next
  case False
  assume "slot_ok s"
  then have n: "active (s\<lparr>draws := Suc (draws s)\<rparr>) = None" using False by (simp add: slot_ok_def)
  from startTrade_entered [OF n, where c = c and now = now
         and clr = "FromPlace (rnd c (draws s) mod 1000000000)"
         and p = "order.extend ord (payload.fields (rnd c (draws s) mod 1000000000))"]
  show ?thesis using False n
    by (auto simp: placeTrade_def nextReqId_def Let_def entered_def split: option.splits)
qed

lemma handle_entered: "slot_ok s \<Longrightarrow> entered c ev s (fst (handle c now ev s))"
proof (cases ev)
  case (WsMessage f)
  then show ?thesis
    by (cases f) (auto simp: handle_def ws_message_def on_message_entered intro: kept_entered)
next
  case (Timer t)
  have "entered c ev (s\<lparr>timers := remove1 t (timers s)\<rparr>) (fst (fire c now t (s\<lparr>timers := remove1 t (timers s)\<rparr>)))"
    by (rule fire_entered)
  then have "entered c ev s (fst (fire c now t (s\<lparr>timers := remove1 t (timers s)\<rparr>)))"
    by simp
  then show ?thesis using Timer by (auto simp: handle_def intro: kept_entered)
next
  case (PlaceTrade ord)
  assume "slot_ok s"
  then show ?thesis using PlaceTrade by (simp add: handle_def placeTrade_entered)
qed (auto simp: handle_def connect_def set_defaults_def Let_def
      intro!: kept_entered on_open_kept on_close_kept subscribeTicks_kept)

lemma step_entered: "slot_ok s \<Longrightarrow> entered c ev s (step c now ev s)"
proof -
  assume a: "slot_ok s"
  have h: "entered c ev s (fst (handle c now ev s))" using a by (rule handle_entered)
  have "kept (fst (handle c now ev s)) (drain c now (fst (handle c now ev s), snd (handle c now ev s)))"
    by (rule drain_kept)
  with h have "entered c ev s (drain c now (fst (handle c now ev s), snd (handle c now ev s)))"
    by (rule entered_kept)
  then show ?thesis using h by (auto simp: step_def Let_def intro: kept_entered)
qed


text \<open>
  The discipline of the slot. In every state the engine reaches from its initial
  state, whatever calls, socket events and timers occur, the lock flag \<open>inProgress\<close> is
  set exactly when the single slot \<open>state.trade.active\<close> holds a trade. A submission
  made while the slot is occupied leaves the occupant in place, starts nothing (no
  request is sent, no promise or timer is created), appends the order to the end of the
  queue and returns \<open>queued\<close> with the new queue length. Across any event, a trade other
  than the occupant comes to hold the slot only as the head of the queue, taken from it
  in that event, or, the slot being free, as the order of a submission. This speaks of
  the slot only, not of the start sequences that are suspended.
\<close>

lemma slot_discipline:
  "inProgress (run c evs (init dsym dcur)) = (active (run c evs (init dsym dcur)) \<noteq> None) \<and>
   (inProgress (run c evs (init dsym dcur)) \<and> \<not> crashed (run c evs (init dsym dcur)) \<longrightarrow>
      (let s = run c evs (init dsym dcur);
           s' = step c now (PlaceTrade ord) s;
           rid = rnd c (draws s) mod 1000000000;
           p = order.extend ord (payload.fields rid)
       in active s' = active s \<and> inProgress s' \<and> queue s' = queue s @ [p] \<and>
          pending s' = pending s \<and> promises s' = promises s \<and> timers s' = timers s \<and>
          outbox s' = outbox s @
            [PlaceReturn \<lparr>accepted = True, queued = True, request_id = rid,
                          queue_position = Some (Suc (length (queue s)))\<rparr>])) \<and>
   entered c ev (run c evs (init dsym dcur)) (step c now' ev (run c evs (init dsym dcur)))"
proof -
  have "slot_ok (init dsym dcur)" by (simp add: slot_ok_def init_def)
  then have ok: "slot_ok (run c evs (init dsym dcur))" by (rule run_slot)
  from ok have "entered c ev (run c evs (init dsym dcur))
                  (step c now' ev (run c evs (init dsym dcur)))"
    by (rule step_entered)
  with ok show ?thesis
    by (simp add: slot_ok_def step_def handle_def placeTrade_def nextReqId_def drain_def Let_def)
qed

lemma run_busy:
  "run cfg0 evs_busy st0 =
     (run cfg0 evs_ready st0)
       \<lparr>inProgress := True,
        active := Some \<lparr>a_requestId = 9, contractId = JNull, startedAt = 4,
                        a_payload = order.extend order0 (payload.fields 9)\<rparr>,
        pending := [(10, \<lparr>p_promise = 2, p_ts = 4, p_type = ''proposal''\<rparr>)],
        promises := [(2, AwaitProposal (FromPlace 9) (order.extend order0 (payload.fields 9)))],
        fresh := 3, draws := 4,
        timers := [T_request 7 0 ''authorize'', T_request 8 1 ''ticks_subscribe'',
                   T_request 10 2 ''proposal''],
        outbox := [WsSend (W_authorize ''tok'' 7), WsSend (W_ticks (JStr ''R_50'') 8),
                   WsSend (W_proposal
                     \<lparr>q_amount = JNum 1, q_basis = JStr ''stake'',
                      q_contract_type = JStr ''DIGITEVEN'', q_currency = JStr ''USD'',
                      q_duration = JNum 3, q_duration_unit = JStr ''t'',
                      q_symbol = JStr ''R_50'', q_barrier = Absent, q_prediction = Absent\<rparr> 10)]\<rparr>"
  unfolding evs_busy_def run_append run_ready
  by (simp add: eval_defs)

text \<open>
  C1 does not hold. Trade 9 holds the slot and awaits the answer to its proposal
  request, so its contract id is still null. A settlement event whose contract id is
  null passes the guard of line 109, since \<open>null !== null\<close> is false, and with \<open>is_sold\<close>
  set it finalises trade 9 and frees the slot, although the start sequence of trade 9
  is still suspended. The next order, 11, is started at once. The venue then answers
  both proposal requests and both start sequences go on to buy: two buy requests are
  written and pending together, for trade 9, which the engine has recorded as settled,
  and for trade 11, which holds the slot.
\<close>

theorem two_trades_buying:
  "inProgress (run cfg0 evs_two_buys st0) \<and>
   active (run cfg0 evs_two_buys st0) =
     Some \<lparr>a_requestId = 11, contractId = JNull, startedAt = 6,
           a_payload = order.extend order0 (payload.fields 11)\<rparr> \<and>
   promises (run cfg0 evs_two_buys st0) =
     [(4, AwaitBuy (FromPlace 9) (order.extend order0 (payload.fields 9))),
      (5, AwaitBuy (FromPlace 11) (order.extend order0 (payload.fields 11)))] \<and>
   pending (run cfg0 evs_two_buys st0) =
     [(13, \<lparr>p_promise = 4, p_ts = 7, p_type = ''buy''\<rparr>),
      (14, \<lparr>p_promise = 5, p_ts = 8, p_type = ''buy''\<rparr>)] \<and>
   drop 4 (outbox (run cfg0 evs_two_buys st0)) =
     [WsSend (W_buy (JStr ''p1'') (JNum 1) 13), WsSend (W_buy (JStr ''p2'') (JNum 1) 14)] \<and>
   lastResult (run cfg0 evs_two_buys st0) =
     Some \<lparr>r_contract_id = JNull, r_status = JStr ''sold'', r_is_sold = JNum 1,
           r_profit = JNum 0, r_payout = JNum 2, r_buy_price = JNum 1, r_sell_price = Absent,
           r_exit_tick = Absent, r_exit_tick_time = Absent, r_transaction_ids = JNull,
           r_error = Absent, endedAt = 5\<rparr>"
  unfolding evs_two_buys_def run_append run_busy run_ready
  by (simp add: eval_defs null_settlement_def open_poc_def)

section \<open>Admission\<close>

lemma run_started:
  "run cfg0 evs_started st0 =
     (run cfg0 evs_busy st0)
       \<lparr>active := Some \<lparr>a_requestId = 9, contractId = JNum 555, startedAt = 4,
                        a_payload = order.extend order0 (payload.fields 9)\<rparr>,
        pending := [], promises := [], fresh := 5, draws := 6,
        timers := [T_request 7 0 ''authorize'', T_request 8 1 ''ticks_subscribe'',
                   T_request 10 2 ''proposal'', T_request 11 3 ''buy'',
                   T_request 12 4 ''proposal_open_contract'', T_trade (JNum 555)],
        outbox := outbox (run cfg0 evs_busy st0) @
          [WsSend (W_buy (JStr ''p1'') (JNum 1) 11), WsSend (W_poc (JNum 555) 12),
           PlaceReturn \<lparr>accepted = True, queued = False, request_id = 9,
                         queue_position = None\<rparr>]\<rparr>"
  unfolding evs_started_def run_append run_busy run_ready
  by (simp add: eval_defs open_poc_def)

text \<open>
  C3 fails as stated. On a free slot the call of \<open>placeTrade\<close> awaits \<open>_startTrade\<close>:
  after the event of the submission only the proposal request has been written and the
  caller is suspended on its answer; the value with request id 9 is returned when the
  third answer (the subscription to the contract) has arrived.
\<close>

theorem placeTrade_awaits_on_free_slot:
  "outbox (run cfg0 evs_busy st0) =
     [WsSend (W_authorize ''tok'' 7), WsSend (W_ticks (JStr ''R_50'') 8),
      WsSend (W_proposal
        \<lparr>q_amount = JNum 1, q_basis = JStr ''stake'', q_contract_type = JStr ''DIGITEVEN'',
         q_currency = JStr ''USD'', q_duration = JNum 3, q_duration_unit = JStr ''t'',
         q_symbol = JStr ''R_50'', q_barrier = Absent, q_prediction = Absent\<rparr> 10)] \<and>
   promises (run cfg0 evs_busy st0) =
     [(2, AwaitProposal (FromPlace 9) (order.extend order0 (payload.fields 9)))] \<and>
   PlaceReturn \<lparr>accepted = True, queued = False, request_id = 9, queue_position = None\<rparr>
     \<notin> set (outbox (run cfg0 evs_busy st0)) \<and>
   last (outbox (run cfg0 evs_started st0)) =
     PlaceReturn \<lparr>accepted = True, queued = False, request_id = 9, queue_position = None\<rparr>"
  unfolding run_started run_busy run_ready by (simp add: eval_defs)

text \<open>
  C3 as amended. The decision between queueing and starting is taken in the turn of the
  call. On an occupied slot \<open>placeTrade\<close> returns in that turn, with \<open>queued\<close> and the
  new queue length. On a free slot of an authorised client with an open socket the turn
  only writes the proposal request and suspends the caller; the answers to the proposal
  and to the buy each only write the next request, and the value with \<open>queued\<close> false is
  returned when the answer to the third request, the subscription to the contract,
  arrives.
\<close>

theorem placeTrade_reply:
  assumes "\<not> crashed s"
  shows
   "(inProgress s \<longrightarrow>
       outbox (step c now (PlaceTrade ord) s) = outbox s @
         [PlaceReturn \<lparr>accepted = True, queued = True,
                       request_id = rnd c (draws s) mod 1000000000,
                       queue_position = Some (Suc (length (queue s)))\<rparr>]) \<and>
    (\<not> inProgress s \<and> authorized s \<and> ws s = Some OPEN \<longrightarrow>
       outbox (step c now (PlaceTrade ord) s) = outbox s @
         [WsSend (W_proposal
            (build_proposal c s (order.extend ord (payload.fields (rnd c (draws s) mod 1000000000))))
            (rnd c (Suc (draws s)) mod 1000000000))] \<and>
       promises (step c now (PlaceTrade ord) s) = promises s @
         [(fresh s, AwaitProposal (FromPlace (rnd c (draws s) mod 1000000000))
                      (order.extend ord (payload.fields (rnd c (draws s) mod 1000000000))))]) \<and>
    (ws s = Some OPEN \<and> truthy pid \<longrightarrow>
       outbox (drain c now
                 (s, [Resume (AwaitProposal (FromPlace rid) p) (Resolved (m\<lparr>proposal := Some pid\<rparr>))])) =
         outbox s @ [WsSend (W_buy pid (js_Number c (o_stake p)) (rnd c (draws s) mod 1000000000))]) \<and>
    (ws s = Some OPEN \<and> truthy cid \<and> active s \<noteq> None \<longrightarrow>
       outbox (drain c now
                 (s, [Resume (AwaitBuy (FromPlace rid) p) (Resolved (m\<lparr>buy := Some cid\<rparr>))])) =
         outbox s @ [WsSend (W_poc cid (rnd c (draws s) mod 1000000000))]) \<and>
    outbox (drain c now (s, [Resume (AwaitSubscribe (FromPlace rid) p cid) (Resolved m)])) =
      outbox s @ [PlaceReturn \<lparr>accepted = True, queued = False, request_id = rid,
                               queue_position = None\<rparr>]"
  using assms
  by (auto simp: step_def handle_def placeTrade_def startTrade_def send_def nextReqId_def
        drain_def build_proposal_def Let_def)

theorem placeTrade_reply_witness:
  "\<not> crashed (run cfg0 evs_ready st0) \<and> \<not> inProgress (run cfg0 evs_ready st0) \<and>
   authorized (run cfg0 evs_ready st0) \<and> ws (run cfg0 evs_ready st0) = Some OPEN \<and>
   promises (step cfg0 4 (PlaceTrade order0) (run cfg0 evs_ready st0)) =
     [(2, AwaitProposal (FromPlace 9) (order.extend order0 (payload.fields 9)))] \<and>
   \<not> crashed (run cfg0 evs_busy st0) \<and> inProgress (run cfg0 evs_busy st0) \<and>
   outbox (step cfg0 5 (PlaceTrade order0) (run cfg0 evs_busy st0)) =
     outbox (run cfg0 evs_busy st0) @
       [PlaceReturn \<lparr>accepted = True, queued = True, request_id = 11, queue_position = Some 1\<rparr>]"
  using placeTrade_reply [of "run cfg0 evs_ready st0" cfg0 4 order0 "JStr ''p1''" 9
          "order.extend order0 (payload.fields 9)" msg0 "JNum 555"]
        placeTrade_reply [of "run cfg0 evs_busy st0" cfg0 5 order0 "JStr ''p1''" 9
          "order.extend order0 (payload.fields 9)" msg0 "JNum 555"]
  unfolding run_busy run_ready
  by (simp add: eval_defs)

section \<open>A proposal without an id\<close>

lemma run_no_id:
  "run cfg0 evs_no_id st0 =
     (run cfg0 evs_busy st0)
       \<lparr>queue := [order.extend order0 (payload.fields 11)],
        pending := [], promises := [], draws := 5,
        outbox := outbox (run cfg0 evs_busy st0) @
          [PlaceThrow 9 ''No proposal id returned'',
           PlaceReturn \<lparr>accepted = True, queued = True, request_id = 11,
                         queue_position = Some 1\<rparr>]\<rparr>"
  unfolding evs_no_id_def run_append run_busy run_ready
  by (simp add: eval_defs)

text \<open>
  C4 does not hold for a trade started by \<open>placeTrade\<close>. The answer to its proposal
  request has no proposal id: \<open>_startTrade\<close> throws \<open>No proposal id returned\<close> to the
  caller of \<open>placeTrade\<close> and no buy request is written, but nothing clears the slot.
  \<open>inProgress\<close> stays set with the failed trade as occupant, no result is recorded, no
  request is pending and the only timers left are request timers whose entries are
  gone; the next order is queued behind a trade that will never end.
\<close>

theorem missing_proposal_id_keeps_slot:
  "inProgress (run cfg0 evs_no_id st0) \<and>
   active (run cfg0 evs_no_id st0) =
     Some \<lparr>a_requestId = 9, contractId = JNull, startedAt = 4,
           a_payload = order.extend order0 (payload.fields 9)\<rparr> \<and>
   lastResult (run cfg0 evs_no_id st0) = None \<and>
   queue (run cfg0 evs_no_id st0) = [order.extend order0 (payload.fields 11)] \<and>
   pending (run cfg0 evs_no_id st0) = [] \<and> promises (run cfg0 evs_no_id st0) = [] \<and>
   timers (run cfg0 evs_no_id st0) =
     [T_request 7 0 ''authorize'', T_request 8 1 ''ticks_subscribe'',
      T_request 10 2 ''proposal''] \<and>
   drop 3 (outbox (run cfg0 evs_no_id st0)) =
     [PlaceThrow 9 ''No proposal id returned'',
      PlaceReturn \<lparr>accepted = True, queued = True, request_id = 11, queue_position = Some 1\<rparr>]"
  unfolding run_no_id run_busy run_ready by (simp add: eval_defs)

section \<open>Correlation ids\<close>

lemma run_auth7:
  "run cfg7 evs_auth7 st0 =
     st0\<lparr>connected := True, authorized := True, ws := Some OPEN, pingTimer := True,
         ticks_symbol := JStr ''R_50'', fresh := 2, draws := 2,
         pending := [(7, \<lparr>p_promise = 1, p_ts = 2, p_type = ''ticks_subscribe''\<rparr>)],
         promises := [(1, AwaitTicks FromOpen)],
         timers := [T_request 7 0 ''authorize'', T_request 7 1 ''ticks_subscribe''],
         outbox := [WsSend (W_authorize ''tok'' 7), WsSend (W_ticks (JStr ''R_50'') 7)]\<rparr>"
  by (simp add: evs_auth7_def cfg7_def eval_defs)

text \<open>
  C6 fails as stated. The id is a random number and \<open>send\<close> does not look at the
  table. With a random source that repeats itself, the subscription made by the open
  handler is pending under id 7 when the HTTP layer subscribes; the new request draws 7
  too, and its entry replaces the live one, whose promise is left without an entry.
\<close>

theorem live_id_drawn_again:
  "map_of (pending (run cfg7 evs_auth7 st0)) 7 =
     Some \<lparr>p_promise = 1, p_ts = 2, p_type = ''ticks_subscribe''\<rparr> \<and>
   fst (nextReqId cfg7 (run cfg7 evs_auth7 st0)) = 7 \<and>
   pending (run cfg7 evs_collide st0) =
     [(7, \<lparr>p_promise = 2, p_ts = 3, p_type = ''ticks_subscribe''\<rparr>)] \<and>
   promises (run cfg7 evs_collide st0) =
     [(1, AwaitTicks FromOpen), (2, AwaitTicks (FromHttp (JStr ''R_100'')))]"
  unfolding evs_collide_def run_append run_auth7
  by (simp add: cfg7_def eval_defs)

text \<open>
  C6 as amended. On an open socket \<open>send\<close> uses the number it draws, an integer below
  \<open>10^9\<close>, as the id, whether or not that id is live. Afterwards the id maps to the new
  request alone and every other id maps to what it mapped to before; the table never
  holds two entries for one id.
\<close>

theorem send_uses_drawn_id:
  assumes "ws s = Some OPEN"
  shows "\<exists>s'. send c now body ty k s = Inr s' \<and>
           rnd c (draws s) mod 1000000000 < 1000000000 \<and>
           map_of (pending s') (rnd c (draws s) mod 1000000000) =
             Some \<lparr>p_promise = fresh s, p_ts = now, p_type = ty\<rparr> \<and>
           (\<forall>i. i \<noteq> rnd c (draws s) mod 1000000000 \<longrightarrow>
                  map_of (pending s') i = map_of (pending s) i) \<and>
           (distinct (map fst (pending s)) \<longrightarrow> distinct (map fst (pending s'))) \<and>
           outbox s' = outbox s @ [WsSend (body (rnd c (draws s) mod 1000000000))]"
  using assms
  by (simp add: send_def nextReqId_def Let_def update_conv distinct_update)

theorem send_uses_drawn_id_witness:
  "ws (run cfg7 evs_auth7 st0) = Some OPEN \<and>
   distinct (map fst (pending (run cfg7 evs_auth7 st0))) \<and>
   (\<exists>s'. send cfg7 3 (W_ticks (JStr ''R_100'')) ''ticks_subscribe''
            (AwaitTicks (FromHttp (JStr ''R_100''))) (run cfg7 evs_auth7 st0) = Inr s' \<and>
          map_of (pending s') 7 = Some \<lparr>p_promise = 2, p_ts = 3, p_type = ''ticks_subscribe''\<rparr> \<and>
          distinct (map fst (pending s')))"
  using send_uses_drawn_id [of "run cfg7 evs_auth7 st0" cfg7 3 "W_ticks (JStr ''R_100'')"
          "''ticks_subscribe''" "AwaitTicks (FromHttp (JStr ''R_100''))"]
  unfolding run_auth7
  by (simp add: cfg7_def eval_defs)

text \<open>
  C8 fails as stated. The timer of a request tests the id alone and is never cleared,
  and an id can be drawn again. The authorisation request drew 7 and was answered; its
  timer stays armed. The subscription of the HTTP layer has drawn 7 as well and is
  pending under it. When the timer of the authorisation request fires, it finds an entry
  under 7, removes it and rejects the promise of the authorisation request, which is
  settled already: nothing is queued. The message that answers the subscription then
  finds no entry, and so does the subscription's own timer: that request is neither
  resolved nor expired, and its caller is suspended for good.
\<close>

theorem stale_timer_removes_live_entry:
  "pending (run cfg7 evs_collide st0) =
     [(7, \<lparr>p_promise = 2, p_ts = 3, p_type = ''ticks_subscribe''\<rparr>)] \<and>
   map_of (promises (run cfg7 evs_collide st0)) 0 = None \<and>
   T_request 7 0 ''authorize'' \<in> set (timers (run cfg7 evs_collide st0)) \<and>
   expire 7 0 ''authorize'' (run cfg7 evs_collide st0) =
     ((run cfg7 evs_collide st0)\<lparr>pending := []\<rparr>, []) \<and>
   pending (run cfg7 evs_lost st0) = [] \<and>
   promises (run cfg7 evs_lost st0) =
     [(1, AwaitTicks FromOpen), (2, AwaitTicks (FromHttp (JStr ''R_100'')))] \<and>
   outbox (run cfg7 evs_lost st0) = outbox (run cfg7 evs_collide st0) \<and>
   timers (run cfg7 evs_lost st0) = [T_request 7 1 ''ticks_subscribe'']"
  unfolding evs_lost_def evs_collide_def run_append run_auth7
  by (simp add: cfg7_def eval_defs)

text \<open>
  C8 as amended. Take a pending request with a nonzero id \<open>rid\<close> whose entry holds the
  request's own promise, still unsettled; this is the case as long as the id has not
  been drawn again since the request was sent. Then the matching inbound message and
  the timer of the request exclude each other. Whichever runs first removes the entry
  and queues the one completion of the request (the answer, the remote error, or the
  timeout); the other, run on the resulting state, finds no entry and changes nothing.
\<close>

theorem resolve_expire_exclusive:
  assumes "map_of (pending s) rid = Some p" and "p_promise p = h"
    and "map_of (promises s) h = Some k" and "req_id m = JNum (int rid)" and "0 < rid"
  shows "snd (resolve_pending m s) =
           [Resume k (case error m of Some e \<Rightarrow> Rejected (render_error e) | None \<Rightarrow> Resolved m)] \<and>
         map_of (pending (fst (resolve_pending m s))) rid = None \<and>
         expire rid h ty (fst (resolve_pending m s)) = (fst (resolve_pending m s), []) \<and>
         snd (expire rid h ty s) = [Resume k (Rejected (''Timeout waiting for '' @ ty))] \<and>
         map_of (pending (fst (expire rid h ty s))) rid = None \<and>
         resolve_pending m (fst (expire rid h ty s)) = (fst (expire rid h ty s), [])"
  using assms
  by (simp add: resolve_pending_def expire_def settle_promise_def delete_conv)

theorem resolve_expire_exclusive_witness:
  "map_of (pending (run cfg0 evs_busy st0)) 10 =
     Some \<lparr>p_promise = 2, p_ts = 4, p_type = ''proposal''\<rparr> \<and>
   map_of (promises (run cfg0 evs_busy st0)) 2 =
     Some (AwaitProposal (FromPlace 9) (order.extend order0 (payload.fields 9))) \<and>
   expire 10 2 ''proposal''
     (fst (resolve_pending (msg0\<lparr>req_id := JNum 10\<rparr>) (run cfg0 evs_busy st0))) =
     (fst (resolve_pending (msg0\<lparr>req_id := JNum 10\<rparr>) (run cfg0 evs_busy st0)), []) \<and>
   resolve_pending (msg0\<lparr>req_id := JNum 10\<rparr>)
     (fst (expire 10 2 ''proposal'' (run cfg0 evs_busy st0))) =
     (fst (expire 10 2 ''proposal'' (run cfg0 evs_busy st0)), [])"
  using resolve_expire_exclusive [of "run cfg0 evs_busy st0" 10
          "\<lparr>p_promise = 2, p_ts = 4, p_type = ''proposal''\<rparr>" 2
          "AwaitProposal (FromPlace 9) (order.extend order0 (payload.fields 9))"
          "msg0\<lparr>req_id := JNum 10\<rparr>" "''proposal''"]
  unfolding run_busy run_ready
  by (simp add: eval_defs)

section \<open>Failure of the next trade\<close>





section \<open>Reconnecting\<close>

lemma reconnect_log_append [simp]: "reconnect_log (xs @ ys) = reconnect_log xs @ reconnect_log ys"
  by (induction xs rule: reconnect_log.induct) simp_all

lemma conn_eq_refl [simp]: "conn_eq s s" by (simp add: conn_eq_def)

lemma conn_eq_trans: "conn_eq s t \<Longrightarrow> conn_eq t u \<Longrightarrow> conn_eq s u"
  by (auto simp: conn_eq_def)

lemma send_conn: "send c now body ty k s = Inr s' \<Longrightarrow> conn_eq s s'"
  by (auto simp: send_def nextReqId_def Let_def conn_eq_def split: if_splits)

lemma fail_to_conn: "conn_eq s (fail_to now clr e s)"
  by (auto simp: fail_to_def conn_eq_def split: caller.splits)

lemma subscribeTicks_conn: "conn_eq s (fst (subscribeTicks c now clr sy s))"
  by (auto simp: subscribeTicks_def Let_def conn_eq_def split: sum.splits dest!: send_Inr)

lemma resume_conn: "conn_eq s (fst (resume c now k r s))"
  apply (cases k; cases r)
  apply (auto simp: Let_def subscribeTicks_def conn_eq_def split: sum.splits option.splits caller.splits dest!: send_Inr)
  done

lemma run_job_conn: "conn_eq s (fst sj) \<Longrightarrow> conn_eq s (fst (run_job c now sj j))"
  by (cases sj; cases j) (auto simp: split_beta intro: conn_eq_trans resume_conn fail_to_conn)

lemma foldl_run_job_conn: "conn_eq s (fst sj) \<Longrightarrow> conn_eq s (fst (foldl (run_job c now) sj js))"
  by (induction js arbitrary: sj) (simp_all add: run_job_conn)

lemma drain_conn: "conn_eq s (drain c now (s, js))"
  by (simp add: drain_def split_beta Let_def foldl_run_job_conn)

lemma reject_all_conn: "conn_eq s (fst (reject_all es s))"
proof (induction es arbitrary: s)
  case Nil
  show ?case by simp
next
  case (Cons e es)
  have "conn_eq s (fst (settle_promise (p_promise (snd e)) (Rejected ''WebSocket closed'') s))"
    by (simp add: settle_promise_def conn_eq_def split: option.splits)
  then show ?case using Cons.IH
    by (auto simp: split_beta Let_def intro: conn_eq_trans)
qed

lemma close_step:
  assumes "\<not> crashed s" and "ws s = Some OPEN \<or> ws s = Some CONNECTING \<or> ws s = Some CLOSING"
  shows "ws (step c now WsClose s) = Some CLOSED \<and> \<not> crashed (step c now WsClose s) \<and>
         reconnectAttempt (step c now WsClose s) = Suc (reconnectAttempt s) \<and>
         reconnect_log (outbox (step c now WsClose s)) =
           reconnect_log (outbox s) @ [reconnect_delay c (Suc (reconnectAttempt s))] \<and>
         T_reconnect (reconnect_delay c (Suc (reconnectAttempt s))) \<in> set (timers (step c now WsClose s))"
proof -
  let ?s1 = "s\<lparr>ws := Some CLOSED, connected := False, authorized := False, pingTimer := False\<rparr>"
  let ?s2 = "fst (reject_all (pending ?s1) ?s1)"
  let ?s3 = "reconnect c (?s2\<lparr>pending := []\<rparr>)"
  have h: "handle c now WsClose s = (?s3, snd (reject_all (pending ?s1) ?s1))"
    using assms by (auto simp: handle_def on_close_def Let_def split_beta)
  have a: "conn_eq ?s1 ?s2" by (rule reject_all_conn)
  have b: "conn_eq ?s3 (drain c now (?s3, snd (reject_all (pending ?s1) ?s1)))" by (rule drain_conn)
  have c3: "crashed ?s3 = False" using a assms by (simp add: conn_eq_def reconnect_def Let_def)
  have st: "step c now WsClose s = drain c now (?s3, snd (reject_all (pending ?s1) ?s1))"
    using assms h c3 by (simp add: step_def Let_def)
  show ?thesis unfolding st using a b assms
    by (auto simp: conn_eq_def reconnect_def Let_def)
qed

lemma timer_step:
  assumes "\<not> crashed s" and "ws s = Some CLOSED" and "T_reconnect d \<in> set (timers s)"
  shows "step c now (Timer (T_reconnect d)) s =
           s\<lparr>timers := remove1 (T_reconnect d) (timers s), connected := False,
              authorized := False, ws := Some CONNECTING\<rparr>"
  using assms by (simp add: step_def handle_def fire_def connect_def drain_def)

lemma failure_cycle:
  assumes "\<not> crashed s" and "ws s = Some OPEN \<or> ws s = Some CONNECTING \<or> ws s = Some CLOSING"
  shows "\<not> crashed (run c [(0, WsClose), (0, Timer (T_reconnect (reconnect_delay c (Suc (reconnectAttempt s)))))] s) \<and>
         ws (run c [(0, WsClose), (0, Timer (T_reconnect (reconnect_delay c (Suc (reconnectAttempt s)))))] s) = Some CONNECTING \<and>
         reconnectAttempt (run c [(0, WsClose), (0, Timer (T_reconnect (reconnect_delay c (Suc (reconnectAttempt s)))))] s) = Suc (reconnectAttempt s) \<and>
         reconnect_log (outbox (run c [(0, WsClose), (0, Timer (T_reconnect (reconnect_delay c (Suc (reconnectAttempt s)))))] s)) =
           reconnect_log (outbox s) @ [reconnect_delay c (Suc (reconnectAttempt s))]"
  using close_step [OF assms(1,2), of c 0]
        timer_step [of "step c 0 WsClose s" "reconnect_delay c (Suc (reconnectAttempt s))" c 0]
  by simp

lemma backoff_run:
  "\<not> crashed s \<Longrightarrow> ws s = Some OPEN \<or> ws s = Some CONNECTING \<or> ws s = Some CLOSING \<Longrightarrow>
   reconnectAttempt (run c (fail_events c (reconnectAttempt s) k) s) = reconnectAttempt s + k \<and>
   reconnect_log (outbox (run c (fail_events c (reconnectAttempt s) k) s)) =
     reconnect_log (outbox s) @ map (\<lambda>i. reconnect_delay c (reconnectAttempt s + i)) [1..<Suc k]"
proof (induction k arbitrary: s)
  case 0
  then show ?case by simp
next
  case (Suc k)
  let ?e = "[(0, WsClose), (0, Timer (T_reconnect (reconnect_delay c (Suc (reconnectAttempt s)))))]"
  let ?s = "run c ?e s"
  have cyc: "\<not> crashed ?s \<and> ws ?s = Some CONNECTING \<and> reconnectAttempt ?s = Suc (reconnectAttempt s) \<and>
         reconnect_log (outbox ?s) = reconnect_log (outbox s) @ [reconnect_delay c (Suc (reconnectAttempt s))]"
    using failure_cycle [OF Suc.prems] by simp
  have r: "run c (fail_events c (reconnectAttempt s) (Suc k)) s = run c (fail_events c (reconnectAttempt ?s) k) ?s"
  proof -
    have "run c (fail_events c (reconnectAttempt s) (Suc k)) s =
          run c (fail_events c (Suc (reconnectAttempt s)) k) ?s"
      by (simp only: fail_events.simps run_append)
    then show ?thesis using cyc by simp
  qed
  have ih: "reconnectAttempt (run c (fail_events c (reconnectAttempt ?s) k) ?s) = reconnectAttempt ?s + k \<and>
   reconnect_log (outbox (run c (fail_events c (reconnectAttempt ?s) k) ?s)) =
     reconnect_log (outbox ?s) @ map (\<lambda>i. reconnect_delay c (reconnectAttempt ?s + i)) [1..<Suc k]"
    using Suc.IH [of ?s] cyc by blast
  have m: "map (\<lambda>i. reconnect_delay c (reconnectAttempt s + i)) [1..<Suc (Suc k)] =
           reconnect_delay c (Suc (reconnectAttempt s)) # map (\<lambda>i. reconnect_delay c (Suc (reconnectAttempt s) + i)) [1..<Suc k]"
  proof -
    have "[1..<Suc (Suc k)] = 1 # map Suc [1..<Suc k]"
      by (metis One_nat_def map_Suc_upt upt_conv_Cons zero_less_Suc Suc_less_eq)
    then show ?thesis by (simp add: comp_def)
  qed
  show ?case unfolding r using ih cyc m by simp
qed


text \<open>
  C5 fails as stated. \<open>_reconnect\<close> increments the counter before it computes the
  delay: with a base of 500 ms and a maximum of 10000 ms, five failures in a row wait
  1000, 2000, 4000, 8000 and 10000 ms, not 500, 1000, 2000, 4000 and 8000. The counter
  is reset by the open handler: after three failures the socket opens, the counter is
  zero, and the client is not authorised yet.
\<close>

theorem five_failures_delays:
  "reconnectBaseDelayMs cfg0 = 500 \<and> reconnectMaxDelayMs cfg0 = 10000 \<and>
   reconnect_log (outbox (run cfg0 evs_five st0)) = [1000, 2000, 4000, 8000, 10000] \<and>
   reconnectAttempt (run cfg0 evs_five st0) = 5 \<and>
   reconnectAttempt (run cfg0 evs_reopen st0) = 0 \<and>
   \<not> authorized (run cfg0 evs_reopen st0)"
  by (simp add: evs_five_def evs_reopen_def eval_defs)

text \<open>
  C5 as amended. From any state with a socket, \<open>k\<close> consecutive failures announce the
  delays \<open>min maxDelay (baseDelay * 2 ^ min (a + i) 8)\<close> for \<open>i = 1, ..., k\<close>, where \<open>a\<close>
  is the counter before the first failure, and leave the counter at \<open>a + k\<close>. The open
  event sets the counter to zero; so the k-th failure after the socket last opened
  waits \<open>min maxDelay (baseDelay * 2 ^ min k 8)\<close>.
\<close>

theorem reconnect_backoff:
  assumes "\<not> crashed s" and "ws s = Some OPEN \<or> ws s = Some CONNECTING \<or> ws s = Some CLOSING"
  shows "reconnect_log (outbox (run c (fail_events c (reconnectAttempt s) k) s)) =
           reconnect_log (outbox s) @
             map (\<lambda>i. min (reconnectMaxDelayMs c)
                        (reconnectBaseDelayMs c * 2 ^ min (reconnectAttempt s + i) 8)) [1..<Suc k] \<and>
         reconnectAttempt (run c (fail_events c (reconnectAttempt s) k) s) = reconnectAttempt s + k \<and>
         (ws s = Some CONNECTING \<longrightarrow> reconnectAttempt (step c now WsOpen s) = 0)"
proof -
  have "reconnectAttempt (step c now WsOpen s) = 0" if "ws s = Some CONNECTING"
    using that assms(1)
    by (simp add: step_def handle_def on_open_def send_def nextReqId_def drain_def Let_def)
  then show ?thesis
    using backoff_run [OF assms, of c k] by (simp add: reconnect_delay_def)
qed

theorem reconnect_backoff_witness:
  "\<not> crashed (connect st0) \<and> ws (connect st0) = Some CONNECTING \<and>
   reconnectAttempt (connect st0) = 0 \<and>
   reconnect_log (outbox (run cfg0 (fail_events cfg0 0 3) (connect st0))) = [1000, 2000, 4000] \<and>
   reconnectAttempt (step cfg0 1 WsOpen (connect st0)) = 0"
proof -
  have h: "\<not> crashed (connect st0)" "ws (connect st0) = Some CONNECTING"
    "reconnectAttempt (connect st0) = 0" "outbox (connect st0) = []"
    by (simp_all add: connect_def st0_def init_def)
  have u: "[Suc 0..<4] = [Suc 0, 2, 3]" by (simp add: upt_rec)
  have f: "reconnectMaxDelayMs cfg0 = 10000" "reconnectBaseDelayMs cfg0 = 500"
    by (simp_all add: cfg0_def)
  have "ws (connect st0) = Some OPEN \<or> ws (connect st0) = Some CONNECTING \<or>
        ws (connect st0) = Some CLOSING" using h(2) by simp
  from reconnect_backoff [OF h(1) this, of cfg0 3 1] show ?thesis
    using f by (simp add: h u)
qed

section \<open>Settlement and timeout\<close>

lemma tracks_upd [simp]:
  "tracks cid (s\<lparr>connected := x0\<rparr>) = tracks cid s"
  "tracks cid (s\<lparr>authorized := x1\<rparr>) = tracks cid s"
  "tracks cid (s\<lparr>lastError := x2\<rparr>) = tracks cid s"
  "tracks cid (s\<lparr>defaults_symbol := x3\<rparr>) = tracks cid s"
  "tracks cid (s\<lparr>defaults_currency := x4\<rparr>) = tracks cid s"
  "tracks cid (s\<lparr>defaults_basis := x5\<rparr>) = tracks cid s"
  "tracks cid (s\<lparr>ticks_symbol := x6\<rparr>) = tracks cid s"
  "tracks cid (s\<lparr>ticks_last := x7\<rparr>) = tracks cid s"
  "tracks cid (s\<lparr>ticks_buffer := x8\<rparr>) = tracks cid s"
  "tracks cid (s\<lparr>queue := x9\<rparr>) = tracks cid s"
  "tracks cid (s\<lparr>lastResult := x10\<rparr>) = tracks cid s"
  "tracks cid (s\<lparr>ws := x11\<rparr>) = tracks cid s"
  "tracks cid (s\<lparr>pingTimer := x12\<rparr>) = tracks cid s"
  "tracks cid (s\<lparr>reconnectAttempt := x13\<rparr>) = tracks cid s"
  "tracks cid (s\<lparr>pending := x14\<rparr>) = tracks cid s"
  "tracks cid (s\<lparr>promises := x15\<rparr>) = tracks cid s"
  "tracks cid (s\<lparr>fresh := x16\<rparr>) = tracks cid s"
  "tracks cid (s\<lparr>draws := x17\<rparr>) = tracks cid s"
  "tracks cid (s\<lparr>timers := x18\<rparr>) = tracks cid s"
  "tracks cid (s\<lparr>outbox := x19\<rparr>) = tracks cid s"
  "tracks cid (s\<lparr>crashed := x20\<rparr>) = tracks cid s"
  "tracks cid (s\<lparr>inProgress := x21\<rparr>) = tracks cid s"
  by (simp_all add: tracks_def)

lemma tracks_active [simp]:
  "tracks cid (s\<lparr>active := None\<rparr>) = False"
  "tracks cid (s\<lparr>active := Some a\<rparr>) = (contractId a = cid)"
  by (simp_all add: tracks_def)

lemma truthy_not_null [simp]: "truthy cid \<Longrightarrow> JNull \<noteq> cid"
  by (cases cid) auto

lemma send_tracks: "send c now body ty k s = Inr s' \<Longrightarrow> tracks cid s' = tracks cid s"
  by (auto dest!: send_Inr)













lemma settle_promise_tracks [simp]: "tracks cid (fst (settle_promise h r s)) = tracks cid s"
  by (simp add: settle_promise_def split: option.splits)


lemma resolve_pending_tracks [simp]: "tracks cid (fst (resolve_pending m s)) = tracks cid s"
  by (simp add: resolve_pending_def split: jv.splits option.splits)


lemma expire_tracks [simp]: "tracks cid (fst (expire rid h ty s)) = tracks cid s"
  by (simp add: expire_def split: option.splits)


lemma reject_all_tracks [simp]: "tracks cid (fst (reject_all es s)) = tracks cid s"
  by (induction es arbitrary: s) (simp_all add: split_beta Let_def)


lemma on_tick_tracks [simp]: "tracks cid (on_tick c m s) = tracks cid s"
  by (simp add: on_tick_def Let_def)











lemma finishTrade_crashed [simp]: "crashed (fst (finishTrade c now s)) = crashed s"
  by (auto simp: finishTrade_def startTrade_def Let_def split: list.splits sum.splits
           dest!: send_Inr)

lemma resolve_pending_fields [simp]:
  "active (fst (resolve_pending m s)) = active s"
  "crashed (fst (resolve_pending m s)) = crashed s"
  by (simp_all add: resolve_pending_def settle_promise_def split: jv.splits option.splits)









section \<open>Tick buffer\<close>

lemma on_tick_buffer:
  "ticks_buffer (on_tick c m s) =
     drop (Suc (length (ticks_buffer s)) - maxTicksBuffer c) (ticks_buffer s @ [m_tick m])"
  by (simp add: on_tick_def Let_def)

lemma on_tick_last: "ticks_last (on_tick c m s) = m_tick m"
  by (simp add: on_tick_def Let_def)

lemma drop_keep_append:
  "drop (length (drop (length xs - C) xs) + n - C) (drop (length xs - C) xs @ ys) =
   drop (length xs + n - C) (xs @ ys)" (is "?l = ?r")
proof -
  let ?k = "length xs - C"
  have "drop ?k xs @ ys = drop ?k (xs @ ys)" by simp
  then have "?l = drop (length (drop ?k xs) + n - C + ?k) (xs @ ys)"
    by (simp only: drop_drop)
  moreover have "length (drop ?k xs) + n - C + ?k = length xs + n - C"
    by (cases "length xs \<le> C") auto
  ultimately show ?thesis by simp
qed

lemma on_ticks_buffer:
  "ms \<noteq> [] \<Longrightarrow>
   ticks_buffer (on_ticks c ms s) =
     drop (length (ticks_buffer s) + length ms - maxTicksBuffer c)
       (ticks_buffer s @ map m_tick ms)"
proof (induction ms arbitrary: s)
  case Nil
  then show ?case by simp
next
  case (Cons m ms)
  show ?case
  proof (cases "ms = []")
    case True
    then show ?thesis by (simp add: on_ticks_def on_tick_buffer)
  next
    case False
    have "ticks_buffer (on_ticks c (m # ms) s) = ticks_buffer (on_ticks c ms (on_tick c m s))"
      by (simp add: on_ticks_def)
    also have "\<dots> = drop (length (ticks_buffer (on_tick c m s)) + length ms - maxTicksBuffer c)
                       (ticks_buffer (on_tick c m s) @ map m_tick ms)"
      using Cons.IH [OF False] by simp
    also have "\<dots> = drop (length (ticks_buffer s) + length (m # ms) - maxTicksBuffer c)
                       (ticks_buffer s @ map m_tick (m # ms))"
      using drop_keep_append [of "ticks_buffer s @ [m_tick m]" "maxTicksBuffer c"
                                 "length ms" "map m_tick ms"]
      by (simp add: on_tick_buffer)
    finally show ?thesis .
  qed
qed

lemma on_ticks_last: "ms \<noteq> [] \<Longrightarrow> ticks_last (on_ticks c ms s) = m_tick (last ms)"
  by (induction ms arbitrary: s) (auto simp: on_ticks_def on_tick_last)

text \<open>
  C9. After any non-empty sequence of tick messages, \<open>state.ticks.last\<close> is the tick of
  the last message, the buffer is the old buffer followed by the received ticks in
  arrival order with the oldest entries dropped from the front, and its length is at
  most the capacity \<open>maxTicksBuffer\<close> (a natural number here).
\<close>

theorem tick_buffer_most_recent:
  assumes "ms \<noteq> []"
  shows "ticks_last (on_ticks c ms s) = m_tick (last ms) \<and>
         ticks_buffer (on_ticks c ms s) =
           drop (length (ticks_buffer s) + length ms - maxTicksBuffer c)
             (ticks_buffer s @ map m_tick ms) \<and>
         length (ticks_buffer (on_ticks c ms s)) \<le> maxTicksBuffer c"
  using assms by (simp add: on_ticks_buffer on_ticks_last)

theorem tick_buffer_most_recent_witness:
  "[tick_msg 1, tick_msg 2, tick_msg 3] \<noteq> [] \<and>
   ticks_last (on_ticks cfg0 [tick_msg 1, tick_msg 2, tick_msg 3] st0) = m_tick (tick_msg 3) \<and>
   ticks_buffer (on_ticks cfg0 [tick_msg 1, tick_msg 2, tick_msg 3] st0) =
     [m_tick (tick_msg 2), m_tick (tick_msg 3)] \<and>
   length (ticks_buffer (on_ticks cfg0 [tick_msg 1, tick_msg 2, tick_msg 3] st0)) \<le> 2"
  using tick_buffer_most_recent [of "[tick_msg 1, tick_msg 2, tick_msg 3]" cfg0 st0]
  by (simp add: cfg0_def st0_def init_def)

section \<open>Malformed frames\<close>

text \<open>
  C10. A frame whose payload is not valid JSON is ignored: the event leaves the whole
  state as it was, so no pending request is resolved, the tick buffer and the trade
  state are untouched and no error is recorded.
\<close>

theorem malformed_frame_ignored:
  "step c now (WsMessage (Malformed b)) s = s"
  by (simp add: step_def handle_def ws_message_def drain_def)

theorem malformed_frame_ignored_witness:
  "step cfg0 5 (WsMessage (Malformed ''{not json'')) (st0\<lparr>ws := Some OPEN\<rparr>) = st0\<lparr>ws := Some OPEN\<rparr>"
  using malformed_frame_ignored [of cfg0 5 "''{not json''" "st0\<lparr>ws := Some OPEN\<rparr>"] by simp

end
